theory Spec2Isabelle
  imports Complex_Main "HOL-Library.Sublist"
begin

section \<open>JavaScript values, exceptions and coercions\<close>

text \<open>
  The server is TypeScript on Node. Every \<^verbatim>\<open>async\<close> method is modelled as a function
  that takes the mutable objects it touches (its receiver, the module-level singletons and
  the outside world) and returns its outcome together with their new values. A rejected
  promise or a \<^verbatim>\<open>throw\<close> is the left injection of a sum, so each \<^verbatim>\<open>try/catch\<close> of the
  source is a \<open>case\<close> of the model. Calls run one after the other: the interleaving of
  concurrent requests is outside this development.

  \<open>Error msg\<close> is \<^verbatim>\<open>new Error(msg)\<close>, \<open>HTTPException status msg\<close> is Hono's exception
  (a subclass of \<^verbatim>\<open>Error\<close>), and \<open>Thrown\<close> stands for any thrown value that is not an
  instance of \<^verbatim>\<open>Error\<close>.
\<close>

datatype exn = Error string | HTTPException nat string | Thrown

text \<open>\<^verbatim>\<open>error instanceof Error ? error.message : 'Unknown error'\<close>\<close>

fun error_message :: "exn \<Rightarrow> string" where
  "error_message (Error m) = m"
| "error_message (HTTPException s m) = m"
| "error_message Thrown = ''Unknown error''"

text \<open>
  Template literals print numbers in decimal. Counts, ids and bounds are integers here
  (vector components, distances and balances are reals); the printer covers the integers
  that JavaScript prints without an exponent.
\<close>

fun show_nat :: "nat \<Rightarrow> string" where
  "show_nat n =
     (if n < 10 then [''0123456789'' ! n]
      else show_nat (n div 10) @ [''0123456789'' ! (n mod 10)])"

declare show_nat.simps [simp del]

definition show_int :: "int \<Rightarrow> string" where
  "show_int i = (if i < 0 then ''-'' @ show_nat (nat (- i)) else show_nat (nat i))"

text \<open>\<^verbatim>\<open>xs.join(sep)\<close>\<close>

fun join :: "string \<Rightarrow> string list \<Rightarrow> string" where
  "join sep [] = []"
| "join sep [x] = x"
| "join sep (x # y # ys) = x @ sep @ join sep (y # ys)"

text \<open>
  \<^verbatim>\<open>v || d\<close> on an optional number (\<open>undefined\<close> and \<open>0\<close> are falsy) and on an optional
  string (\<open>undefined\<close> and the empty string are falsy).
\<close>

definition or_num :: "int option \<Rightarrow> int \<Rightarrow> int" where
  "or_num v d = (case v of None \<Rightarrow> d | Some n \<Rightarrow> if n = 0 then d else n)"

definition truthy :: "string option \<Rightarrow> bool" where
  "truthy v = (case v of None \<Rightarrow> False | Some s \<Rightarrow> s \<noteq> [])"

definition or_str :: "string option \<Rightarrow> string option \<Rightarrow> string option" where
  "or_str v d = (if truthy v then v else d)"

text \<open>\<^verbatim>\<open>s.includes(t)\<close>: \<open>t\<close> occurs in \<open>s\<close> as a contiguous substring.\<close>

fun includes_str :: "string \<Rightarrow> string \<Rightarrow> bool" where
  "includes_str [] t = (t = [])"
| "includes_str (c # s) t = (prefix t (c # s) \<or> includes_str s t)"

text \<open>\<^verbatim>\<open>xs.slice(start, end)\<close> with JavaScript's clamping of both indices.\<close>

definition slice :: "'a list \<Rightarrow> int \<Rightarrow> int \<Rightarrow> 'a list" where
  "slice xs start end' =
     (let len = int (length xs);
          from = (if start < 0 then max (len + start) 0 else min start len);
          to = (if end' < 0 then max (len + end') 0 else min end' len)
      in take (nat (to - from)) (drop (nat from) xs))"

text \<open>
  A relational comparison of two \<^verbatim>\<open>Date\<close> objects compares their time values; an invalid
  date has the time value \<open>NaN\<close> (here \<open>None\<close>), and every comparison with \<open>NaN\<close> is false.
\<close>

definition date_lt :: "int option \<Rightarrow> int option \<Rightarrow> bool" where
  "date_lt a b = (case (a, b) of (Some x, Some y) \<Rightarrow> x < y | _ \<Rightarrow> False)"

section \<open>Schemas (schemas/common.ts, schemas/eizen.ts, schemas/memory.ts)\<close>

text \<open>
  \<^verbatim>\<open>interface VectorMetadata\<close>: every recognised key is optional; \<open>extra\<close> holds the keys
  admitted by the index signature. The key \<^verbatim>\<open>context\<close> is spelled \<open>context'\<close>.
\<close>

record VectorMetadata =
  content :: "string option"
  context' :: "string option"
  importance :: "int option"
  tags :: "string list option"
  timestamp :: "string option"
  client :: "string option"
  sessionId :: "string option"
  userId :: "string option"
  createdAt :: "string option"
  extra :: "(string \<times> string) list"

text \<open>The object \<^verbatim>\<open>{}\<close> as metadata.\<close>

definition empty_metadata :: VectorMetadata where
  "empty_metadata =
     \<lparr>content = None, context' = None, importance = None, tags = None, timestamp = None,
      client = None, sessionId = None, userId = None, createdAt = None, extra = []\<rparr>"

text \<open>
  \<^verbatim>\<open>type SearchFilters\<close> (inferred from \<^verbatim>\<open>searchFiltersSchema\<close>); the fields \<^verbatim>\<open>tags\<close>,
  \<^verbatim>\<open>context\<close> and \<^verbatim>\<open>client\<close> carry the prefix \<open>f_\<close> to keep them apart from the metadata's.
\<close>

record SearchFilters =
  f_tags :: "string list option"
  importance_min :: "int option"
  importance_max :: "int option"
  date_from :: "string option"
  date_to :: "string option"
  f_context :: "string option"
  f_client :: "string option"

type_synonym VectorEmbedding = "real list"

text \<open>
  \<^verbatim>\<open>interface InsertVector\<close>, \<^verbatim>\<open>SearchVector\<close>, \<^verbatim>\<open>EizenSearchResult\<close>, \<^verbatim>\<open>EizenInsertResult\<close>.
  Where two objects of the source have a field of the same name (\<^verbatim>\<open>metadata\<close>, \<^verbatim>\<open>id\<close>,
  \<^verbatim>\<open>content\<close>, \<^verbatim>\<open>isInitialized\<close>, ...), the fields carry a prefix that names the object.
\<close>

record InsertVector =
  iv_vector :: VectorEmbedding
  iv_metadata :: "VectorMetadata option"

record SearchVector =
  sv_query :: VectorEmbedding
  sv_k :: int

record EizenSearchResult =
  hit_id :: int
  hit_distance :: real
  hit_metadata :: "VectorMetadata option"

record EizenInsertResult =
  ir_success :: bool
  vectorId :: int
  ir_message :: string

text \<open>\<^verbatim>\<open>type CreateMemory\<close> and \<^verbatim>\<open>type SearchMemory\<close> (schemas/memory.ts).\<close>

record CreateMemory =
  cm_content :: string
  cm_metadata :: "VectorMetadata option"

record SearchMemory =
  sm_query :: string
  sm_k :: "int option"
  sm_filters :: "SearchFilters option"

section \<open>The outside world\<close>

text \<open>
  What the services call but do not define: the transformer pipeline, the vector index
  library, the ledger client, the file system and the JavaScript runtime. These are
  parameters of the model, gathered in the record \<open>ext\<close> below. \<open>'w\<close> is the state of
  everything outside the process (the ledger with its contracts, the disk); \<open>'cfg\<close> is the
  \<^verbatim>\<open>ArweaveConfig\<close> object. A call that may change the outside returns the new world;
  a call that only reads returns its outcome.

  \<^item> \<open>pipeline\<close>: \<^verbatim>\<open>pipeline('feature-extraction', modelName)\<close>, the model load.
  \<^item> \<open>getArweaveConfig\<close>: \<^verbatim>\<open>getArweaveConfig()\<close> of config/arweave.
  \<^item> \<open>get_datasize\<close>, \<open>insert'\<close>, \<open>knn_search\<close>, \<open>get_vector\<close>: the methods
    \<^verbatim>\<open>db.get_datasize\<close>, \<^verbatim>\<open>insert\<close>, \<^verbatim>\<open>knn_search\<close> and \<^verbatim>\<open>get_vector\<close> of the index handle.
  \<^item> \<open>getAddress\<close>, \<open>getBalance\<close>, \<open>winstonToAr\<close>: \<^verbatim>\<open>warp.arweave.wallets.getAddress\<close>,
    \<^verbatim>\<open>warp.arweave.wallets.getBalance\<close> and \<^verbatim>\<open>warp.arweave.ar.winstonToAr\<close>.
  \<^item> \<open>EizenDbVector_deploy\<close>, \<open>warp_deploy\<close>: \<^verbatim>\<open>EizenDbVector.deploy(wallet, warp)\<close> and
    \<^verbatim>\<open>warp.deploy({wallet, initState, src, ...})\<close>, each giving the contract's transaction id.
  \<^item> \<open>readFileSync\<close>: the file under the working directory with the given path segments.
  \<^item> \<open>parseFloat\<close>, \<open>Number\<close>, \<open>Date\<close>: the conversions of the runtime, \<open>None\<close> for \<open>NaN\<close>
    and for an invalid date; \<open>process_env\<close> is \<^verbatim>\<open>process.env\<close>.
\<close>

record response =
  data :: "real list"
  dims :: "int list"

type_synonym EmbeddingPipeline = "string list \<Rightarrow> exn + response"

record HnswParams =
  hnsw_m :: int
  efConstruction :: int
  efSearch :: int

text \<open>
  (\<open>hnsw_m\<close> is the option \<^verbatim>\<open>m\<close>.)
  The handles \<^verbatim>\<open>new SetSDK(wallet, contractId, warp)\<close> and
  \<^verbatim>\<open>new EizenDbVector(sdk, options)\<close> keep their constructor arguments; the two
  constructors are taken not to throw.
\<close>

record 'cfg SetSDK =
  sdk_config :: 'cfg
  sdk_contractId :: string

record 'cfg EizenDbVector =
  db_sdk :: "'cfg SetSDK"
  db_options :: HnswParams

record ('w, 'cfg) ext =
  pipeline :: "'w \<Rightarrow> (exn + EmbeddingPipeline) \<times> 'w"
  getArweaveConfig :: "'w \<Rightarrow> (exn + 'cfg) \<times> 'w"
  get_datasize :: "'cfg EizenDbVector \<Rightarrow> 'w \<Rightarrow> exn + nat"
  insert' :: "'cfg EizenDbVector \<Rightarrow> VectorEmbedding \<Rightarrow> VectorMetadata option \<Rightarrow> 'w
               \<Rightarrow> (exn + unit) \<times> 'w"
  knn_search :: "'cfg EizenDbVector \<Rightarrow> VectorEmbedding \<Rightarrow> int \<Rightarrow> 'w
               \<Rightarrow> exn + EizenSearchResult list"
  get_vector :: "'cfg EizenDbVector \<Rightarrow> int \<Rightarrow> 'w
               \<Rightarrow> exn + (VectorEmbedding \<times> VectorMetadata option) option"
  getAddress :: "'cfg \<Rightarrow> 'w \<Rightarrow> exn + string"
  getBalance :: "'cfg \<Rightarrow> string \<Rightarrow> 'w \<Rightarrow> exn + string"
  winstonToAr :: "'cfg \<Rightarrow> string \<Rightarrow> string"
  EizenDbVector_deploy :: "'cfg \<Rightarrow> 'w \<Rightarrow> (exn + string) \<times> 'w"
  warp_deploy :: "'cfg \<Rightarrow> string \<Rightarrow> string \<Rightarrow> 'w \<Rightarrow> (exn + string) \<times> 'w"
  readFileSync :: "string list \<Rightarrow> 'w \<Rightarrow> exn + string"
  with_owner :: "string \<Rightarrow> string \<Rightarrow> exn + string"
  parseFloat :: "string \<Rightarrow> real option"
  Number :: "string option \<Rightarrow> int option"
  Date :: "string \<Rightarrow> int option"
  process_env :: "string \<Rightarrow> string option"

section \<open>EmbeddingService (services/EmbeddingService.ts)\<close>

record EmbeddingResult =
  embeddings :: VectorEmbedding
  dimensions :: nat
  model :: string

text \<open>
  The fields of the class. \<open>initializationPromise\<close> holds the outcome of the promise it
  points to; between two calls it is always \<open>None\<close>, since the \<^verbatim>\<open>finally\<close> block clears it.
\<close>

record EmbeddingService =
  extractor :: "EmbeddingPipeline option"
  emb_isInitialized :: bool
  initializationPromise :: "(exn + unit) option"

definition modelName :: string where
  "modelName = ''Xenova/all-MiniLM-L6-v2''"

definition EmbeddingService_initialize ::
  "('w, 'cfg) ext \<Rightarrow> EmbeddingService \<Rightarrow> 'w \<Rightarrow> (exn + unit) \<times> EmbeddingService \<times> 'w" where
  "EmbeddingService_initialize x this w =
     (case pipeline x w of
        (Inl error, w') \<Rightarrow> (Inl error, this, w')
      | (Inr p, w') \<Rightarrow> (Inr (), this\<lparr>extractor := Some p, emb_isInitialized := True\<rparr>, w'))"

definition EmbeddingService_ensureInitialized ::
  "('w, 'cfg) ext \<Rightarrow> EmbeddingService \<Rightarrow> 'w \<Rightarrow> (exn + unit) \<times> EmbeddingService \<times> 'w" where
  "EmbeddingService_ensureInitialized x this w =
     (if emb_isInitialized this \<and> extractor this \<noteq> None then (Inr (), this, w)
      else case initializationPromise this of
        Some p \<Rightarrow> (p, this, w)
      | None \<Rightarrow>
          (case EmbeddingService_initialize x this w of
             (Inl error, this', w') \<Rightarrow> (Inl error, this'\<lparr>initializationPromise := None\<rparr>, w')
           | (Inr u, this', w') \<Rightarrow>
               (let this'' = this'\<lparr>initializationPromise := None\<rparr>
                in if extractor this'' = None
                   then (Inl (Error ''EmbeddingService is not properly initialized''), this'', w')
                   else (Inr (), this'', w'))))"

text \<open>The \<^verbatim>\<open>try\<close> block of \<^verbatim>\<open>textToEmbeddings\<close>.\<close>

definition textToEmbeddings_try :: "EmbeddingPipeline \<Rightarrow> string \<Rightarrow> exn + EmbeddingResult" where
  "textToEmbeddings_try extract text =
     (case extract [text] of
        Inl error \<Rightarrow> Inl error
      | Inr response \<Rightarrow>
          Inr \<lparr>embeddings = data response, dimensions = length (data response),
               model = modelName\<rparr>)"

definition EmbeddingService_textToEmbeddings ::
  "('w, 'cfg) ext \<Rightarrow> string \<Rightarrow> EmbeddingService \<Rightarrow> 'w
     \<Rightarrow> (exn + EmbeddingResult) \<times> EmbeddingService \<times> 'w" where
  "EmbeddingService_textToEmbeddings x text this w =
     (case EmbeddingService_ensureInitialized x this w of
        (Inl error, this', w') \<Rightarrow> (Inl error, this', w')
      | (Inr u, this', w') \<Rightarrow>
          (case extractor this' of
             None \<Rightarrow> (Inl (Error ''Extractor not initialized''), this', w')
           | Some extract \<Rightarrow>
               (case textToEmbeddings_try extract text of
                  Inl error \<Rightarrow>
                    (Inl (Error (''Failed to generate embeddings: '' @ error_message error)),
                     this', w')
                | Inr result \<Rightarrow> (Inr result, this', w'))))"

text \<open>
  The loop of the rank-2 branch: \<^verbatim>\<open>for (let i = 0; i < texts.length; i++)\<close>, one slice of
  the flat buffer per text.
\<close>

function batch_loop ::
  "nat \<Rightarrow> string list \<Rightarrow> int \<Rightarrow> real list \<Rightarrow> EmbeddingResult list
     \<Rightarrow> exn + EmbeddingResult list" where
  "batch_loop i texts embeddingDim buf results =
     (if i < length texts then
        (if int i * embeddingDim \<ge> int (length buf)
            \<or> int i * embeddingDim + embeddingDim > int (length buf)
         then Inl (Error (''Index out of bounds: trying to slice [''
                 @ show_int (int i * embeddingDim) @ '':''
                 @ show_int (int i * embeddingDim + embeddingDim)
                 @ ''] from data of length '' @ show_nat (length buf)))
         else batch_loop (i + 1) texts embeddingDim buf
                (results @
                 [\<lparr>embeddings = slice buf (int i * embeddingDim)
                                  (int i * embeddingDim + embeddingDim),
                   dimensions = length (slice buf (int i * embeddingDim)
                                  (int i * embeddingDim + embeddingDim)),
                   model = modelName\<rparr>]))
      else Inr results)"
  by pat_completeness auto
termination
  by (relation "measure (\<lambda>(i, texts, embeddingDim, buf, results). length texts - i)") auto

declare batch_loop.simps [simp del]

text \<open>The \<^verbatim>\<open>try\<close> block of \<^verbatim>\<open>batchTextToEmbeddings\<close>.\<close>

definition batchTextToEmbeddings_try ::
  "EmbeddingPipeline \<Rightarrow> string list \<Rightarrow> exn + EmbeddingResult list" where
  "batchTextToEmbeddings_try extract texts =
     (case extract texts of
        Inl error \<Rightarrow> Inl error
      | Inr response \<Rightarrow>
          (let embeddingDim = (if dims response = [] then 0 else last (dims response)) in
           if embeddingDim \<le> 0
           then Inl (Error (''Invalid embedding dimension: '' @ show_int embeddingDim))
           else
             (let batchDim = (case dims response of [] \<Rightarrow> 0 | d # ds \<Rightarrow> d) in
              if batchDim \<noteq> int (length texts)
              then Inl (Error (''Batch dimension mismatch: expected ''
                      @ show_nat (length texts) @ '' but got '' @ show_int batchDim))
              else if length (dims response) = 1 then
                (if length texts \<noteq> 1
                 then Inl (Error (''Expected 1 text for 1D tensor, got ''
                         @ show_nat (length texts) @ '' texts''))
                 else Inr [\<lparr>embeddings = data response,
                            dimensions = length (data response), model = modelName\<rparr>])
              else if length (dims response) = 2 then
                batch_loop 0 texts embeddingDim (data response) []
              else Inl (Error (''Unexpected tensor dimensionality: ''
                      @ show_nat (length (dims response)) @ ''D tensor with dims [''
                      @ join '', '' (map show_int (dims response)) @ '']'')))))"

definition batchTextToEmbeddings ::
  "('w, 'cfg) ext \<Rightarrow> string list \<Rightarrow> EmbeddingService \<Rightarrow> 'w
     \<Rightarrow> (exn + EmbeddingResult list) \<times> EmbeddingService \<times> 'w" where
  "batchTextToEmbeddings x texts this w =
     (case EmbeddingService_ensureInitialized x this w of
        (Inl error, this', w') \<Rightarrow> (Inl error, this', w')
      | (Inr u, this', w') \<Rightarrow>
          (case extractor this' of
             None \<Rightarrow> (Inl (Error ''Extractor not initialized''), this', w')
           | Some extract \<Rightarrow>
               (case batchTextToEmbeddings_try extract texts of
                  Inl error \<Rightarrow>
                    (Inl (Error (''Failed to generate batch embeddings: ''
                                  @ error_message error)), this', w')
                | Inr results \<Rightarrow> (Inr results, this', w'))))"



section \<open>EizenService (services/EizenService.ts)\<close>

text \<open>
  The module-level state a request can touch: the outside world, the two static fields of
  \<^verbatim>\<open>EizenService\<close> and the \<^verbatim>\<open>embeddingService\<close> singleton. \<open>arweaveInitPromise\<close> holds the
  outcome of the promise it points to (calls run to completion one after the other, so a
  stored promise is settled when the next call reads it).
\<close>

record ('w, 'cfg) globals =
  world :: 'w
  sharedArweaveConfig :: "'cfg option"
  arweaveInitPromise :: "(exn + 'cfg) option"
  embeddingService :: EmbeddingService

record 'cfg EizenService =
  vectorDb :: "'cfg EizenDbVector option"
  sdk :: "'cfg SetSDK option"
  contractId :: string
  isInitialized :: bool

text \<open>\<^verbatim>\<open>private constructor(contractId)\<close>\<close>

definition new_EizenService :: "string \<Rightarrow> 'cfg EizenService" where
  "new_EizenService cid = \<lparr>vectorDb = None, sdk = None, contractId = cid, isInitialized = False\<rparr>"

text \<open>
  \<^verbatim>\<open>EizenService.sharedArweaveConfig = await EizenService.arweaveInitPromise\<close>: a rejected
  promise throws at the \<^verbatim>\<open>await\<close>, before the assignment.
\<close>

definition await_arweaveInitPromise ::
  "(exn + 'cfg) \<Rightarrow> ('w, 'cfg) globals \<Rightarrow> (exn + 'cfg) \<times> ('w, 'cfg) globals" where
  "await_arweaveInitPromise p g =
     (case p of
        Inl error \<Rightarrow> (Inl error, g)
      | Inr config \<Rightarrow> (Inr config, g\<lparr>sharedArweaveConfig := Some config\<rparr>))"

definition getSharedArweaveConfig ::
  "('w, 'cfg) ext \<Rightarrow> ('w, 'cfg) globals \<Rightarrow> (exn + 'cfg) \<times> ('w, 'cfg) globals" where
  "getSharedArweaveConfig x g =
     (case sharedArweaveConfig g of
        Some config \<Rightarrow> (Inr config, g)
      | None \<Rightarrow>
          (case arweaveInitPromise g of
             None \<Rightarrow>
               (case getArweaveConfig x (world g) of
                  (p, w') \<Rightarrow>
                    await_arweaveInitPromise p (g\<lparr>world := w', arweaveInitPromise := Some p\<rparr>))
           | Some p \<Rightarrow> await_arweaveInitPromise p g))"

definition getHnswParams :: "('w, 'cfg) ext \<Rightarrow> HnswParams" where
  "getHnswParams x =
     \<lparr>hnsw_m = or_num (Number x (process_env x ''EIZEN_M'')) 16,
      efConstruction = or_num (Number x (process_env x ''EIZEN_EF_CONSTRUCTION'')) 200,
      efSearch = or_num (Number x (process_env x ''EIZEN_EF_SEARCH'')) 50\<rparr>"

definition EizenService_initialize ::
  "('w, 'cfg) ext \<Rightarrow> 'cfg EizenService \<Rightarrow> ('w, 'cfg) globals
     \<Rightarrow> (exn + unit) \<times> 'cfg EizenService \<times> ('w, 'cfg) globals" where
  "EizenService_initialize x this g =
     (case getSharedArweaveConfig x g of
        (Inl error, g') \<Rightarrow> (Inl error, this, g')
      | (Inr arweaveConfig, g') \<Rightarrow>
          (let s = \<lparr>sdk_config = arweaveConfig, sdk_contractId = contractId this\<rparr>;
               options = getHnswParams x
           in (Inr (),
               this\<lparr>sdk := Some s,
                    vectorDb := Some \<lparr>db_sdk = s, db_options = options\<rparr>,
                    isInitialized := True\<rparr>,
               g')))"

text \<open>\<^verbatim>\<open>static async forContract(contractId)\<close>\<close>

definition forContract ::
  "('w, 'cfg) ext \<Rightarrow> string \<Rightarrow> ('w, 'cfg) globals
     \<Rightarrow> (exn + 'cfg EizenService) \<times> ('w, 'cfg) globals" where
  "forContract x cid g =
     (case EizenService_initialize x (new_EizenService cid) g of
        (Inl error, service, g') \<Rightarrow> (Inl error, g')
      | (Inr u, service, g') \<Rightarrow> (Inr service, g'))"

definition EizenService_ensureInitialized ::
  "('w, 'cfg) ext \<Rightarrow> 'cfg EizenService \<Rightarrow> ('w, 'cfg) globals
     \<Rightarrow> (exn + unit) \<times> 'cfg EizenService \<times> ('w, 'cfg) globals" where
  "EizenService_ensureInitialized x this g =
     (case (if \<not> isInitialized this then EizenService_initialize x this g
            else (Inr (), this, g)) of
        (Inl error, this', g') \<Rightarrow> (Inl error, this', g')
      | (Inr u, this', g') \<Rightarrow>
          (if vectorDb this' = None
           then (Inl (Error ''EizenService is not properly initialized''), this', g')
           else (Inr (), this', g')))"

text \<open>The \<^verbatim>\<open>try\<close> block of \<^verbatim>\<open>insertVector\<close>: the id is read, then the vector is inserted.\<close>

definition insertVector_try ::
  "('w, 'cfg) ext \<Rightarrow> 'cfg EizenDbVector \<Rightarrow> InsertVector \<Rightarrow> 'w
     \<Rightarrow> (exn + EizenInsertResult) \<times> 'w" where
  "insertVector_try x db d w =
     (case get_datasize x db w of
        Inl error \<Rightarrow> (Inl error, w)
      | Inr n \<Rightarrow>
          (case insert' x db (iv_vector d) (iv_metadata d) w of
             (Inl error, w') \<Rightarrow> (Inl error, w')
           | (Inr u, w') \<Rightarrow>
               (Inr \<lparr>ir_success = True, vectorId = int n,
                     ir_message = ''Vector inserted successfully with ID: '' @ show_nat n\<rparr>,
                w')))"

definition insertVector ::
  "('w, 'cfg) ext \<Rightarrow> InsertVector \<Rightarrow> 'cfg EizenService \<Rightarrow> ('w, 'cfg) globals
     \<Rightarrow> (exn + EizenInsertResult) \<times> 'cfg EizenService \<times> ('w, 'cfg) globals" where
  "insertVector x d this g =
     (case EizenService_ensureInitialized x this g of
        (Inl error, this', g') \<Rightarrow> (Inl error, this', g')
      | (Inr u, this', g') \<Rightarrow>
          (case vectorDb this' of
             None \<Rightarrow> (Inl (Error ''Vector database not initialized''), this', g')
           | Some db \<Rightarrow>
               (case insertVector_try x db d (world g') of
                  (Inl error, w') \<Rightarrow>
                    (Inl (Error (''Failed to insert vector: '' @ error_message error)),
                     this', g'\<lparr>world := w'\<rparr>)
                | (Inr result, w') \<Rightarrow> (Inr result, this', g'\<lparr>world := w'\<rparr>))))"

text \<open>\<^verbatim>\<open>metadata: result.metadata || undefined\<close> leaves an absent mapping absent.\<close>

definition searchVectors_try ::
  "('w, 'cfg) ext \<Rightarrow> 'cfg EizenDbVector \<Rightarrow> SearchVector \<Rightarrow> 'w
     \<Rightarrow> exn + EizenSearchResult list" where
  "searchVectors_try x db d w =
     (case knn_search x db (sv_query d) (sv_k d) w of
        Inl error \<Rightarrow> Inl error
      | Inr results \<Rightarrow>
          Inr (map (\<lambda>result. \<lparr>hit_id = hit_id result, hit_distance = hit_distance result,
                               hit_metadata = hit_metadata result\<rparr>) results))"

definition searchVectors ::
  "('w, 'cfg) ext \<Rightarrow> SearchVector \<Rightarrow> 'cfg EizenService \<Rightarrow> ('w, 'cfg) globals
     \<Rightarrow> (exn + EizenSearchResult list) \<times> 'cfg EizenService \<times> ('w, 'cfg) globals" where
  "searchVectors x d this g =
     (case EizenService_ensureInitialized x this g of
        (Inl error, this', g') \<Rightarrow> (Inl error, this', g')
      | (Inr u, this', g') \<Rightarrow>
          (case vectorDb this' of
             None \<Rightarrow> (Inl (Error ''Vector database not initialized''), this', g')
           | Some db \<Rightarrow>
               (case searchVectors_try x db d (world g') of
                  Inl error \<Rightarrow>
                    (Inl (Error (''Failed to search vectors: '' @ error_message error)),
                     this', g')
                | Inr results \<Rightarrow> (Inr results, this', g'))))"

definition getVector ::
  "('w, 'cfg) ext \<Rightarrow> int \<Rightarrow> 'cfg EizenService \<Rightarrow> ('w, 'cfg) globals
     \<Rightarrow> (exn + (VectorEmbedding \<times> VectorMetadata option) option)
         \<times> 'cfg EizenService \<times> ('w, 'cfg) globals" where
  "getVector x vid this g =
     (case EizenService_ensureInitialized x this g of
        (Inl error, this', g') \<Rightarrow> (Inl error, this', g')
      | (Inr u, this', g') \<Rightarrow>
          (case vectorDb this' of
             None \<Rightarrow> (Inl (Error ''Vector database not initialized''), this', g')
           | Some db \<Rightarrow>
               (case get_vector x db vid (world g') of
                  Inl error \<Rightarrow>
                    (Inl (Error (''Failed to retrieve vector: '' @ error_message error)),
                     this', g')
                | Inr None \<Rightarrow> (Inr None, this', g')
                | Inr (Some (point, md)) \<Rightarrow> (Inr (Some (point, md)), this', g'))))"




definition cleanup :: "'cfg EizenService \<Rightarrow> 'cfg EizenService" where
  "cleanup this = this\<lparr>isInitialized := False, vectorDb := None, sdk := None\<rparr>"

text \<open>
  \<^verbatim>\<open>static async deployNewContract()\<close>. \<open>deployNewContract_try\<close> is its \<^verbatim>\<open>try\<close> block.
  \<^verbatim>\<open>parseFloat\<close> may give \<open>NaN\<close> (\<open>None\<close>), for which \<^verbatim>\<open><= 0\<close> is false. The light-bulb
  emoji that opens the development hint is written as its four UTF-8 bytes.
  \<open>with_owner state address\<close> stands for parsing \<^verbatim>\<open>state.json\<close>, setting \<^verbatim>\<open>owner\<close> and
  printing the object again.
\<close>

record DeployResult =
  dr_contractId :: string
  walletAddress :: string

definition isProduction :: "('w, 'cfg) ext \<Rightarrow> bool" where
  "isProduction x = (process_env x ''NODE_ENV'' = Some ''production'')"

definition bulb :: string where
  "bulb = [CHR 0xF0, CHR 0x9F, CHR 0x92, CHR 0xA1]"

definition deployNewContract_try ::
  "('w, 'cfg) ext \<Rightarrow> 'cfg \<Rightarrow> 'w \<Rightarrow> (exn + DeployResult) \<times> 'w" where
  "deployNewContract_try x arweaveConfig w =
     (case getAddress x arweaveConfig w of
        Inl error \<Rightarrow> (Inl error, w)
      | Inr address \<Rightarrow>
          (case getBalance x arweaveConfig address w of
             Inl error \<Rightarrow> (Inl error, w)
           | Inr balance \<Rightarrow>
               (let readableBalance = winstonToAr x arweaveConfig balance in
                if (case parseFloat x readableBalance of None \<Rightarrow> False | Some b \<Rightarrow> b \<le> 0)
                then
                  (if \<not> isProduction x
                   then (Inl (Error (''Insufficient wallet balance. Current: ''
                            @ readableBalance @ '' AR. '' @ bulb
                            @ '' Dev tip: ArLocal should auto-mint tokens. Check ArLocal is running.'')),
                         w)
                   else (Inl (Error (''Insufficient wallet balance for deployment. Current: ''
                            @ readableBalance @ '' AR.'')), w))
                else
                  (case (if isProduction x then EizenDbVector_deploy x arweaveConfig w
                         else
                           (case readFileSync x [''data'', ''contract.js''] w of
                              Inl error \<Rightarrow> (Inl error, w)
                            | Inr contractSource \<Rightarrow>
                                (case readFileSync x [''data'', ''state.json''] w of
                                   Inl error \<Rightarrow> (Inl error, w)
                                 | Inr state \<Rightarrow>
                                     (case with_owner x state address of
                                        Inl error \<Rightarrow> (Inl error, w)
                                      | Inr initState \<Rightarrow>
                                          warp_deploy x arweaveConfig initState
                                            contractSource w)))) of
                     (Inl error, w') \<Rightarrow> (Inl error, w')
                   | (Inr contractTxId, w') \<Rightarrow>
                       (case getBalance x arweaveConfig address w' of
                          Inl error \<Rightarrow> (Inl error, w')
                        | Inr newBalance \<Rightarrow>
                            (Inr \<lparr>dr_contractId = contractTxId, walletAddress = address\<rparr>,
                             w'))))))"

definition deployNewContract ::
  "('w, 'cfg) ext \<Rightarrow> ('w, 'cfg) globals \<Rightarrow> (exn + DeployResult) \<times> ('w, 'cfg) globals" where
  "deployNewContract x g =
     (case getSharedArweaveConfig x g of
        (Inl error, g') \<Rightarrow> (Inl error, g')
      | (Inr arweaveConfig, g') \<Rightarrow>
          (case deployNewContract_try x arweaveConfig (world g') of
             (Inl error, w') \<Rightarrow>
               (Inl (Error (''Failed to deploy contract: '' @ error_message error)),
                g'\<lparr>world := w'\<rparr>)
           | (Inr result, w') \<Rightarrow> (Inr result, g'\<lparr>world := w'\<rparr>)))"

section \<open>MemoryService (services/MemoryService.ts)\<close>

record MemoryResult =
  mem_id :: int
  mem_content :: "string option"
  mem_metadata :: "VectorMetadata option"
  mem_distance :: "real option"

record CreateMemoryResult =
  success :: bool
  memoryId :: int
  message :: string



record 'cfg MemoryService =
  eizenService :: "'cfg EizenService"

text \<open>\<^verbatim>\<open>private async textToEmbeddings(text)\<close>, on the \<^verbatim>\<open>embeddingService\<close> singleton.\<close>

definition MemoryService_textToEmbeddings ::
  "('w, 'cfg) ext \<Rightarrow> string \<Rightarrow> ('w, 'cfg) globals
     \<Rightarrow> (exn + VectorEmbedding) \<times> ('w, 'cfg) globals" where
  "MemoryService_textToEmbeddings x text g =
     (case EmbeddingService_textToEmbeddings x text (embeddingService g) (world g) of
        (Inl error, e', w') \<Rightarrow>
          (Inl (Error (''Failed to generate embeddings: '' @ error_message error)),
           g\<lparr>world := w', embeddingService := e'\<rparr>)
      | (Inr result, e', w') \<Rightarrow>
          (Inr (embeddings result), g\<lparr>world := w', embeddingService := e'\<rparr>))"

text \<open>\<^verbatim>\<open>{ ...data.metadata, content: data.content }\<close>: the spread of an absent object adds no key.\<close>

definition enhancedMetadata :: "CreateMemory \<Rightarrow> VectorMetadata" where
  "enhancedMetadata d =
     (case cm_metadata d of None \<Rightarrow> empty_metadata | Some md \<Rightarrow> md)
       \<lparr>content := Some (cm_content d)\<rparr>"

definition createMemory_try ::
  "('w, 'cfg) ext \<Rightarrow> CreateMemory \<Rightarrow> 'cfg MemoryService \<Rightarrow> ('w, 'cfg) globals
     \<Rightarrow> (exn + CreateMemoryResult) \<times> 'cfg MemoryService \<times> ('w, 'cfg) globals" where
  "createMemory_try x d this g =
     (case MemoryService_textToEmbeddings x (cm_content d) g of
        (Inl error, g1) \<Rightarrow> (Inl error, this, g1)
      | (Inr emb, g1) \<Rightarrow>
          (case insertVector x \<lparr>iv_vector = emb, iv_metadata = Some (enhancedMetadata d)\<rparr>
                  (eizenService this) g1 of
             (Inl error, s', g2) \<Rightarrow> (Inl error, this\<lparr>eizenService := s'\<rparr>, g2)
           | (Inr result, s', g2) \<Rightarrow>
               (Inr \<lparr>success = True, memoryId = vectorId result,
                     message = ''Memory created from '' @ show_nat (length (cm_content d))
                               @ '' characters of content''\<rparr>,
                this\<lparr>eizenService := s'\<rparr>, g2)))"

definition createMemory ::
  "('w, 'cfg) ext \<Rightarrow> CreateMemory \<Rightarrow> 'cfg MemoryService \<Rightarrow> ('w, 'cfg) globals
     \<Rightarrow> (exn + CreateMemoryResult) \<times> 'cfg MemoryService \<times> ('w, 'cfg) globals" where
  "createMemory x d this g =
     (case createMemory_try x d this g of
        (Inl error, this', g') \<Rightarrow>
          (Inl (Error (''Failed to create memory: '' @ error_message error)), this', g')
      | (Inr result, this', g') \<Rightarrow> (Inr result, this', g'))"

text \<open>\<^verbatim>\<open>(metadata?.content as string) || undefined\<close>\<close>

definition content_of :: "VectorMetadata option \<Rightarrow> string option" where
  "content_of md = (case md of None \<Rightarrow> None | Some v \<Rightarrow> or_str (content v) None)"

text \<open>
  The callback of \<^verbatim>\<open>memories.filter\<close> in \<^verbatim>\<open>applyFilters\<close>: one test per \<^verbatim>\<open>return false\<close>, in
  the order of the source. A memory without a metadata object is kept before any test.
\<close>

definition rejected_by_tags :: "SearchFilters \<Rightarrow> VectorMetadata \<Rightarrow> bool" where
  "rejected_by_tags filters md =
     (case f_tags filters of
        None \<Rightarrow> False
      | Some wanted \<Rightarrow>
          \<not> list_ex (\<lambda>tag. tag \<in> set (case tags md of None \<Rightarrow> [] | Some memoryTags \<Rightarrow> memoryTags))
                wanted)"

definition rejected_by_importance_min :: "SearchFilters \<Rightarrow> VectorMetadata \<Rightarrow> bool" where
  "rejected_by_importance_min filters md =
     (case importance_min filters of
        None \<Rightarrow> False
      | Some lo \<Rightarrow> or_num (importance md) 0 < lo)"

definition rejected_by_importance_max :: "SearchFilters \<Rightarrow> VectorMetadata \<Rightarrow> bool" where
  "rejected_by_importance_max filters md =
     (case importance_max filters of
        None \<Rightarrow> False
      | Some hi \<Rightarrow> or_num (importance md) 0 > hi)"

definition rejected_by_client :: "SearchFilters \<Rightarrow> VectorMetadata \<Rightarrow> bool" where
  "rejected_by_client filters md =
     (case f_client filters of
        None \<Rightarrow> False
      | Some wanted \<Rightarrow>
          wanted \<noteq> []
          \<and> \<not> includes_str (case or_str (client md) (Some []) of None \<Rightarrow> [] | Some c \<Rightarrow> c)
                wanted)"

definition rejected_by_date :: "('w, 'cfg) ext \<Rightarrow> SearchFilters \<Rightarrow> VectorMetadata \<Rightarrow> bool" where
  "rejected_by_date x filters md =
     ((truthy (date_from filters) \<or> truthy (date_to filters))
      \<and> (case or_str (timestamp md) (createdAt md) of
            None \<Rightarrow> False
          | Some ts \<Rightarrow>
              ts \<noteq> []
              \<and> ((case date_from filters of
                     None \<Rightarrow> False
                   | Some lo \<Rightarrow> lo \<noteq> [] \<and> date_lt (Date x ts) (Date x lo))
                  \<or> (case date_to filters of
                        None \<Rightarrow> False
                      | Some hi \<Rightarrow> hi \<noteq> [] \<and> date_lt (Date x hi) (Date x ts)))))"

definition keeps :: "('w, 'cfg) ext \<Rightarrow> SearchFilters \<Rightarrow> MemoryResult \<Rightarrow> bool" where
  "keeps x filters memory =
     (case mem_metadata memory of
        None \<Rightarrow> True
      | Some md \<Rightarrow>
          (if rejected_by_tags filters md then False
           else if rejected_by_importance_min filters md then False
           else if rejected_by_importance_max filters md then False
           else if rejected_by_client filters md then False
           else if rejected_by_date x filters md then False
           else True))"

definition applyFilters ::
  "('w, 'cfg) ext \<Rightarrow> MemoryResult list \<Rightarrow> SearchFilters option \<Rightarrow> MemoryResult list" where
  "applyFilters x memories filters =
     (case filters of
        None \<Rightarrow> memories
      | Some f \<Rightarrow> filter (keeps x f) memories)"

text \<open>Step 3 of \<^verbatim>\<open>searchMemories\<close>: the shape of one result.\<close>

definition to_memory :: "EizenSearchResult \<Rightarrow> MemoryResult" where
  "to_memory result =
     \<lparr>mem_id = hit_id result, mem_content = content_of (hit_metadata result),
      mem_metadata = hit_metadata result, mem_distance = Some (hit_distance result)\<rparr>"

definition searchMemories_try ::
  "('w, 'cfg) ext \<Rightarrow> SearchMemory \<Rightarrow> 'cfg MemoryService \<Rightarrow> ('w, 'cfg) globals
     \<Rightarrow> (exn + MemoryResult list) \<times> 'cfg MemoryService \<times> ('w, 'cfg) globals" where
  "searchMemories_try x d this g =
     (case MemoryService_textToEmbeddings x (sm_query d) g of
        (Inl error, g1) \<Rightarrow> (Inl error, this, g1)
      | (Inr queryEmbeddings, g1) \<Rightarrow>
          (case searchVectors x \<lparr>sv_query = queryEmbeddings, sv_k = or_num (sm_k d) 10\<rparr>
                  (eizenService this) g1 of
             (Inl error, s', g2) \<Rightarrow> (Inl error, this\<lparr>eizenService := s'\<rparr>, g2)
           | (Inr searchResults, s', g2) \<Rightarrow>
               (Inr (applyFilters x (map to_memory searchResults) (sm_filters d)),
                this\<lparr>eizenService := s'\<rparr>, g2)))"

definition searchMemories ::
  "('w, 'cfg) ext \<Rightarrow> SearchMemory \<Rightarrow> 'cfg MemoryService \<Rightarrow> ('w, 'cfg) globals
     \<Rightarrow> (exn + MemoryResult list) \<times> 'cfg MemoryService \<times> ('w, 'cfg) globals" where
  "searchMemories x d this g =
     (case searchMemories_try x d this g of
        (Inl error, this', g') \<Rightarrow>
          (Inl (Error (''Failed to search memories: '' @ error_message error)), this', g')
      | (Inr memories, this', g') \<Rightarrow> (Inr memories, this', g'))"

definition getMemory ::
  "('w, 'cfg) ext \<Rightarrow> int \<Rightarrow> 'cfg MemoryService \<Rightarrow> ('w, 'cfg) globals
     \<Rightarrow> (exn + MemoryResult option) \<times> 'cfg MemoryService \<times> ('w, 'cfg) globals" where
  "getMemory x mid this g =
     (case getVector x mid (eizenService this) g of
        (Inl error, s', g') \<Rightarrow>
          (Inl (Error (''Failed to retrieve memory: '' @ error_message error)),
           this\<lparr>eizenService := s'\<rparr>, g')
      | (Inr None, s', g') \<Rightarrow> (Inr None, this\<lparr>eizenService := s'\<rparr>, g')
      | (Inr (Some (point, md)), s', g') \<Rightarrow>
          (Inr (Some \<lparr>mem_id = mid, mem_content = content_of md, mem_metadata = md,
                      mem_distance = None\<rparr>),
           this\<lparr>eizenService := s'\<rparr>, g'))"





section \<open>The quota gate (middlewares/quota.ts, services/AppwriteService.ts)\<close>

datatype plan = basic | pro | enterprise

record Subscription =
  sub_userId :: string
  plan :: plan
  quotaLimit :: int
  quotaUsed :: int
  isActive :: bool
  renewsAt :: string

text \<open>
  \<^verbatim>\<open>AppwriteService.getUserSubscription\<close>: \<open>listDocuments\<close> is the document store's query for
  the subscriptions of one user; the first document or \<^verbatim>\<open>null\<close>.
\<close>

definition getUserSubscription ::
  "(string \<Rightarrow> exn + Subscription list) \<Rightarrow> string \<Rightarrow> exn + Subscription option" where
  "getUserSubscription listDocuments uid =
     (case listDocuments uid of
        Inl error \<Rightarrow> Inl error
      | Inr documents \<Rightarrow> Inr (case documents of [] \<Rightarrow> None | d # ds \<Rightarrow> Some d))"

text \<open>
  The \<^verbatim>\<open>try\<close> block of \<^verbatim>\<open>quotaMiddleware\<close>; \<open>next'\<close> is the rest of the request, which
  receives the subscription attached to the context.
\<close>

definition quotaMiddleware_try ::
  "(string \<Rightarrow> exn + Subscription list) \<Rightarrow> string \<Rightarrow> (Subscription \<Rightarrow> exn + 'a) \<Rightarrow> exn + 'a" where
  "quotaMiddleware_try listDocuments uid next' =
     (case getUserSubscription listDocuments uid of
        Inl error \<Rightarrow> Inl error
      | Inr None \<Rightarrow> Inl (HTTPException 403 ''No active subscription found'')
      | Inr (Some subscription) \<Rightarrow>
          (if \<not> isActive subscription
           then Inl (HTTPException 403 ''Subscription is inactive'')
           else if quotaUsed subscription \<ge> quotaLimit subscription
           then Inl (HTTPException 429
                  (''Quota exceeded. Used '' @ show_int (quotaUsed subscription) @ ''/''
                   @ show_int (quotaLimit subscription)))
           else next' subscription))"

definition quotaMiddleware ::
  "(string \<Rightarrow> exn + Subscription list) \<Rightarrow> string option \<Rightarrow> (Subscription \<Rightarrow> exn + 'a)
     \<Rightarrow> exn + 'a" where
  "quotaMiddleware listDocuments userId' next' =
     (case userId' of
        None \<Rightarrow> Inl (HTTPException 401 ''Authentication required'')
      | Some uid \<Rightarrow>
          (if uid = [] then Inl (HTTPException 401 ''Authentication required'')
           else
             (case quotaMiddleware_try listDocuments uid next' of
                Inr v \<Rightarrow> Inr v
              | Inl (HTTPException status msg) \<Rightarrow> Inl (HTTPException status msg)
              | Inl error \<Rightarrow> Inl (HTTPException 500 ''Failed to check quota''))))"

section \<open>Request schemas (schemas/memory.ts, schemas/common.ts)\<close>

text \<open>
  A zod schema either returns the parsed value or the list of its issues. An issue is the
  path of the field, zod's issue code and the message when the schema states one.
  \<open>datetime\<close> is zod's test for an ISO date-time string.
\<close>

datatype issue_code = too_small | too_big | invalid_string

type_synonym issue = "string \<times> issue_code \<times> string option"

text \<open>\<^verbatim>\<open>z.number().int().min(1).max(10).optional()\<close>\<close>

definition importance_issues :: "string \<Rightarrow> int option \<Rightarrow> issue list" where
  "importance_issues path v =
     (case v of
        None \<Rightarrow> []
      | Some n \<Rightarrow>
          (if n < 1 then [(path, too_small, None)] else [])
          @ (if n > 10 then [(path, too_big, None)] else []))"

text \<open>\<^verbatim>\<open>z.string().datetime().optional()\<close>\<close>

definition datetime_issues :: "(string \<Rightarrow> bool) \<Rightarrow> string \<Rightarrow> string option \<Rightarrow> issue list" where
  "datetime_issues datetime path v =
     (case v of
        None \<Rightarrow> []
      | Some s \<Rightarrow> if datetime s then [] else [(path, invalid_string, None)])"

definition searchFiltersSchema_issues :: "(string \<Rightarrow> bool) \<Rightarrow> SearchFilters \<Rightarrow> issue list" where
  "searchFiltersSchema_issues datetime f =
     importance_issues ''filters.importance_min'' (importance_min f)
     @ importance_issues ''filters.importance_max'' (importance_max f)
     @ datetime_issues datetime ''filters.date_from'' (date_from f)
     @ datetime_issues datetime ''filters.date_to'' (date_to f)"

text \<open>
  \<^verbatim>\<open>memoryMetadataSchema\<close>: its issues, and its output, in which an absent \<^verbatim>\<open>client\<close> has
  become \<^verbatim>\<open>'unknown'\<close>.
\<close>

definition memoryMetadataSchema_issues :: "(string \<Rightarrow> bool) \<Rightarrow> VectorMetadata \<Rightarrow> issue list" where
  "memoryMetadataSchema_issues datetime md =
     importance_issues ''metadata.importance'' (importance md)
     @ datetime_issues datetime ''metadata.timestamp'' (timestamp md)"

definition memoryMetadataSchema_output :: "VectorMetadata \<Rightarrow> VectorMetadata" where
  "memoryMetadataSchema_output md =
     (case client md of None \<Rightarrow> md\<lparr>client := Some ''unknown''\<rparr> | Some c \<Rightarrow> md)"

text \<open>\<^verbatim>\<open>content: z.string().min(1, 'Content is required').max(10000, 'Content too long')\<close>\<close>

definition content_issues :: "string \<Rightarrow> issue list" where
  "content_issues c =
     (if length c < 1 then [(''content'', too_small, Some ''Content is required'')] else [])
     @ (if length c > 10000 then [(''content'', too_big, Some ''Content too long'')] else [])"

definition createMemorySchema :: "(string \<Rightarrow> bool) \<Rightarrow> CreateMemory \<Rightarrow> issue list + CreateMemory" where
  "createMemorySchema datetime input =
     (let issues =
            content_issues (cm_content input)
            @ (case cm_metadata input of
                 None \<Rightarrow> []
               | Some md \<Rightarrow> memoryMetadataSchema_issues datetime md)
      in if issues = []
         then Inr \<lparr>cm_content = cm_content input,
                   cm_metadata = map_option memoryMetadataSchema_output (cm_metadata input)\<rparr>
         else Inl issues)"

text \<open>\<^verbatim>\<open>query: z.string().min(1, 'Query is required')\<close>\<close>

definition query_issues :: "string \<Rightarrow> issue list" where
  "query_issues q =
     (if length q < 1 then [(''query'', too_small, Some ''Query is required'')] else [])"

text \<open>\<^verbatim>\<open>k: z.number().min(1).max(100).default(10)\<close>: the default replaces an absent input.\<close>

definition k_issues :: "int option \<Rightarrow> issue list" where
  "k_issues v =
     (case v of
        None \<Rightarrow> []
      | Some n \<Rightarrow>
          (if n < 1 then [(''k'', too_small, None)] else [])
          @ (if n > 100 then [(''k'', too_big, None)] else []))"

definition k_output :: "int option \<Rightarrow> int" where
  "k_output v = (case v of None \<Rightarrow> 10 | Some n \<Rightarrow> n)"

definition searchMemorySchema :: "(string \<Rightarrow> bool) \<Rightarrow> SearchMemory \<Rightarrow> issue list + SearchMemory" where
  "searchMemorySchema datetime input =
     (let issues =
            query_issues (sm_query input)
            @ k_issues (sm_k input)
            @ (case sm_filters input of
                 None \<Rightarrow> []
               | Some f \<Rightarrow> searchFiltersSchema_issues datetime f)
      in if issues = []
         then Inr \<lparr>sm_query = sm_query input, sm_k = Some (k_output (sm_k input)),
                   sm_filters = sm_filters input\<rparr>
         else Inl issues)"

section \<open>A simulated outside world\<close>

text \<open>
  One concrete instance of the parameters, on which the services can be run: a single
  tenant's index kept as a list (the id of a vector is its position, a search ranks by
  position), a ledger whose configuration call fails the first time and succeeds from then
  on, a wallet with a fixed balance, and an extractor that gives every text a
  two-dimensional vector in a rank-2 tensor. \<open>sim_attempts\<close> counts the calls of
  \<^verbatim>\<open>getArweaveConfig\<close>, \<open>sim_deployed\<close> the contracts deployed.
\<close>

record sim_world =
  sim_index :: "(VectorEmbedding \<times> VectorMetadata option) list"
  sim_attempts :: nat
  sim_deployed :: nat

definition sim_extractor :: EmbeddingPipeline where
  "sim_extractor texts =
     Inr \<lparr>data = concat (map (\<lambda>t. [real (length t), 1]) texts),
          dims = [int (length texts), 2]\<rparr>"

fun sim_hits ::
  "nat \<Rightarrow> (VectorEmbedding \<times> VectorMetadata option) list \<Rightarrow> EizenSearchResult list" where
  "sim_hits i [] = []"
| "sim_hits i ((v, md) # rest) =
     \<lparr>hit_id = int i, hit_distance = real i, hit_metadata = md\<rparr> # sim_hits (Suc i) rest"

definition sim :: "string option \<Rightarrow> string \<Rightarrow> (sim_world, string) ext" where
  "sim node_env balance =
     \<lparr>pipeline = (\<lambda>w. (Inr sim_extractor, w)),
      getArweaveConfig =
        (\<lambda>w. (if sim_attempts w = 0 then Inl (Error ''wallet unavailable'') else Inr ''config'',
              w\<lparr>sim_attempts := Suc (sim_attempts w)\<rparr>)),
      get_datasize = (\<lambda>db w. Inr (length (sim_index w))),
      insert' = (\<lambda>db v md w. (Inr (), w\<lparr>sim_index := sim_index w @ [(v, md)]\<rparr>)),
      knn_search = (\<lambda>db q k w. Inr (take (nat k) (sim_hits 0 (sim_index w)))),
      get_vector =
        (\<lambda>db i w. Inr (if 0 \<le> i \<and> nat i < length (sim_index w)
                         then Some (sim_index w ! nat i) else None)),
      getAddress = (\<lambda>c w. Inr ''address''),
      getBalance = (\<lambda>c a w. Inr balance),
      winstonToAr = (\<lambda>c b. b),
      EizenDbVector_deploy = (\<lambda>c w. (Inr ''tx'', w\<lparr>sim_deployed := Suc (sim_deployed w)\<rparr>)),
      warp_deploy = (\<lambda>c st src w. (Inr ''tx'', w\<lparr>sim_deployed := Suc (sim_deployed w)\<rparr>)),
      readFileSync = (\<lambda>p w. Inr ''{}''),
      with_owner = (\<lambda>st a. Inr st),
      parseFloat = (\<lambda>s. if s = ''0'' then Some 0 else Some 1),
      Number = (\<lambda>v. None),
      Date = (\<lambda>s. Some (int (length s))),
      process_env = (\<lambda>n. if n = ''NODE_ENV'' then node_env else None)\<rparr>"

text \<open>A tenant's store as \<^verbatim>\<open>forContract\<close> leaves it, and the process once both services are ready.\<close>

definition sim_db :: "string EizenDbVector" where
  "sim_db = \<lparr>db_sdk = \<lparr>sdk_config = ''config'', sdk_contractId = ''tenant''\<rparr>,
             db_options = \<lparr>hnsw_m = 16, efConstruction = 200, efSearch = 50\<rparr>\<rparr>"

definition sim_service :: "string MemoryService" where
  "sim_service =
     \<lparr>eizenService =
        \<lparr>vectorDb = Some sim_db, sdk = Some (db_sdk sim_db), contractId = ''tenant'',
         isInitialized = True\<rparr>\<rparr>"

definition sim_globals ::
  "(VectorEmbedding \<times> VectorMetadata option) list \<Rightarrow> (sim_world, string) globals" where
  "sim_globals index =
     \<lparr>world = \<lparr>sim_index = index, sim_attempts = 1, sim_deployed = 0\<rparr>,
      sharedArweaveConfig = Some ''config'', arweaveInitPromise = Some (Inr ''config''),
      embeddingService =
        \<lparr>extractor = Some sim_extractor, emb_isInitialized = True,
         initializationPromise = None\<rparr>\<rparr>"

text \<open>The process right after start: nothing initialised, no call made.\<close>

definition fresh_globals :: "(sim_world, string) globals" where
  "fresh_globals =
     \<lparr>world = \<lparr>sim_index = [], sim_attempts = 0, sim_deployed = 0\<rparr>,
      sharedArweaveConfig = None, arweaveInitPromise = None,
      embeddingService =
        \<lparr>extractor = None, emb_isInitialized = False, initializationPromise = None\<rparr>\<rparr>"

definition with_importance :: "int \<Rightarrow> VectorMetadata" where
  "with_importance i = empty_metadata\<lparr>importance := Some i\<rparr>"

definition importance_at_least :: "int \<Rightarrow> SearchFilters" where
  "importance_at_least lo =
     \<lparr>f_tags = None, importance_min = Some lo, importance_max = None, date_from = None,
      date_to = None, f_context = None, f_client = None\<rparr>"

text \<open>An index of three vectors: one without metadata, one of importance 3, one of importance 7.\<close>

definition three_vectors :: "(VectorEmbedding \<times> VectorMetadata option) list" where
  "three_vectors =
     [([0, 1], None), ([1, 1], Some (with_importance 3)), ([2, 1], Some (with_importance 7))]"

text \<open>An extractor that answers with a rank-1 tensor of 384 components.\<close>

definition rank1_extractor :: EmbeddingPipeline where
  "rank1_extractor texts = Inr \<lparr>data = replicate 384 0, dims = [384]\<rparr>"

definition ready_service :: "EmbeddingPipeline \<Rightarrow> EmbeddingService" where
  "ready_service p =
     \<lparr>extractor = Some p, emb_isInitialized = True, initializationPromise = None\<rparr>"

text \<open>The request of the specification's scenario, with a \<^verbatim>\<open>content\<close> key in its metadata.\<close>

definition dark_mode :: CreateMemory where
  "dark_mode =
     \<lparr>cm_content = ''User prefers dark mode'',
      cm_metadata =
        Some (empty_metadata\<lparr>content := Some ''something else'', importance := Some 7,
                               tags := Some [''preference'']\<rparr>)\<rparr>"

text \<open>A subscription of 100 requests per period, by its activity and its usage.\<close>

definition subscription_of :: "bool \<Rightarrow> int \<Rightarrow> Subscription" where
  "subscription_of active used =
     \<lparr>sub_userId = ''u1'', plan = basic, quotaLimit = 100, quotaUsed = used,
      isActive = active, renewsAt = ''2026-01-01T00:00:00.000Z''\<rparr>"

text \<open>A search request without filters, by its \<open>k\<close>.\<close>

definition search_request :: "int option \<Rightarrow> SearchMemory" where
  "search_request k = \<lparr>sm_query = ''dark mode'', sm_k = k, sm_filters = None\<rparr>"


section \<open>Properties of the embedding\<close>

subsection \<open>Auxiliary facts\<close>

lemma show_nat_digit: "n < 10 \<Longrightarrow> show_nat n = [''0123456789'' ! n]"
  by (simp add: show_nat.simps)

lemma sim_sel [simp]:
  "pipeline (sim e b) = (\<lambda>w. (Inr sim_extractor, w))"
  "getArweaveConfig (sim e b) =
     (\<lambda>w. (if sim_attempts w = 0 then Inl (Error ''wallet unavailable'') else Inr ''config'',
           w\<lparr>sim_attempts := Suc (sim_attempts w)\<rparr>))"
  "get_datasize (sim e b) = (\<lambda>db w. Inr (length (sim_index w)))"
  "insert' (sim e b) = (\<lambda>db v md w. (Inr (), w\<lparr>sim_index := sim_index w @ [(v, md)]\<rparr>))"
  "knn_search (sim e b) = (\<lambda>db q k w. Inr (take (nat k) (sim_hits 0 (sim_index w))))"
  "get_vector (sim e b) =
     (\<lambda>db i w. Inr (if 0 \<le> i \<and> nat i < length (sim_index w)
                      then Some (sim_index w ! nat i) else None))"
  "getAddress (sim e b) = (\<lambda>c w. Inr ''address'')"
  "getBalance (sim e b) = (\<lambda>c a w. Inr b)"
  "winstonToAr (sim e b) = (\<lambda>c b. b)"
  "parseFloat (sim e b) = (\<lambda>s. if s = ''0'' then Some 0 else Some 1)"
  "process_env (sim e b) = (\<lambda>n. if n = ''NODE_ENV'' then e else None)"
  by (simp_all add: sim_def)

text \<open>An initialised store passes \<^verbatim>\<open>ensureInitialized\<close> unchanged; a store that passed is initialised.\<close>

lemma ensureInitialized_ready:
  "isInitialized s \<Longrightarrow> vectorDb s = Some db
     \<Longrightarrow> EizenService_ensureInitialized x s g = (Inr (), s, g)"
  by (simp add: EizenService_ensureInitialized_def)

lemma ensureInitialized_Inr:
  assumes "EizenService_ensureInitialized x s g = (Inr u, s', g')"
  shows "isInitialized s' \<and> (\<exists>db. vectorDb s' = Some db)"
  using assms
  by (auto simp: EizenService_ensureInitialized_def EizenService_initialize_def Let_def
        split: if_splits prod.splits sum.splits)

text \<open>What a successful \<^verbatim>\<open>insertVector\<close>, \<^verbatim>\<open>createMemory\<close> and \<^verbatim>\<open>searchMemories\<close> went through.\<close>

lemma insertVector_Inr:
  assumes "insertVector x d s g = (Inr result, s', g')"
  shows "\<exists>g1 db n w'.
           EizenService_ensureInitialized x s g = (Inr (), s', g1)
         \<and> vectorDb s' = Some db \<and> isInitialized s'
         \<and> get_datasize x db (world g1) = Inr n
         \<and> insert' x db (iv_vector d) (iv_metadata d) (world g1) = (Inr (), w')
         \<and> g' = g1\<lparr>world := w'\<rparr>
         \<and> result = \<lparr>ir_success = True, vectorId = int n,
                      ir_message = ''Vector inserted successfully with ID: '' @ show_nat n\<rparr>"
proof -
  from assms obtain u g1 where e: "EizenService_ensureInitialized x s g = (Inr u, s', g1)"
    by (auto simp: insertVector_def split: prod.splits sum.splits option.splits)
  from ensureInitialized_Inr [OF e] obtain db where db: "vectorDb s' = Some db" "isInitialized s'"
    by blast
  from assms e db show ?thesis
    by (auto simp: insertVector_def insertVector_try_def split: prod.splits sum.splits)
qed

lemma createMemory_Inr:
  assumes "createMemory x d this g = (Inr r, this', g')"
  shows "\<exists>emb g1 result s'.
           MemoryService_textToEmbeddings x (cm_content d) g = (Inr emb, g1)
         \<and> insertVector x \<lparr>iv_vector = emb, iv_metadata = Some (enhancedMetadata d)\<rparr>
               (eizenService this) g1 = (Inr result, s', g')
         \<and> this' = this\<lparr>eizenService := s'\<rparr>
         \<and> r = \<lparr>success = True, memoryId = vectorId result,
                 message = ''Memory created from '' @ show_nat (length (cm_content d))
                           @ '' characters of content''\<rparr>"
  using assms
  by (auto simp: createMemory_def createMemory_try_def split: prod.splits sum.splits)

lemma searchMemories_Inr:
  assumes "searchMemories x d this g = (Inr memories, this', g')"
  shows "\<exists>q g1 hits s'.
           MemoryService_textToEmbeddings x (sm_query d) g = (Inr q, g1)
         \<and> searchVectors x \<lparr>sv_query = q, sv_k = or_num (sm_k d) 10\<rparr> (eizenService this) g1
             = (Inr hits, s', g')
         \<and> memories = applyFilters x (map to_memory hits) (sm_filters d)
         \<and> this' = this\<lparr>eizenService := s'\<rparr>"
  using assms
  by (auto simp: searchMemories_def searchMemories_try_def split: prod.splits sum.splits)

lemma searchVectors_ready:
  assumes "isInitialized s" "vectorDb s = Some db"
  shows "searchVectors x \<lparr>sv_query = q, sv_k = k\<rparr> s g =
           (case knn_search x db q k (world g) of
              Inl error \<Rightarrow>
                (Inl (Error (''Failed to search vectors: '' @ error_message error)), s, g)
            | Inr results \<Rightarrow> (Inr results, s, g))"
proof -
  have idm: "(\<lambda>result. \<lparr>hit_id = hit_id result, hit_distance = hit_distance result,
                hit_metadata = hit_metadata result\<rparr>) = (\<lambda>result::EizenSearchResult. result)"
    by (rule ext) simp
  from assms show ?thesis
    by (simp add: searchVectors_def ensureInitialized_ready searchVectors_try_def idm
          split: sum.splits)
qed

lemma getMemory_ready:
  assumes "isInitialized (eizenService this)" "vectorDb (eizenService this) = Some db"
    "get_vector x db i (world g) = Inr (Some (v, md))"
  shows "getMemory x i this g =
           (Inr (Some \<lparr>mem_id = i, mem_content = content_of md, mem_metadata = md,
                       mem_distance = None\<rparr>), this, g)"
  using assms
  by (simp add: getMemory_def getVector_def ensureInitialized_ready)

text \<open>The filter step keeps the order of its input, and commutes with the reshaping of hits.\<close>

lemma applyFilters_subseq: "subseq (applyFilters x ms f) ms"
  by (cases f) (simp_all add: applyFilters_def)

lemma applyFilters_map:
  "applyFilters x (map to_memory hits) f =
     map to_memory
       (case f of None \<Rightarrow> hits | Some fl \<Rightarrow> filter (\<lambda>h. keeps x fl (to_memory h)) hits)"
  by (cases f) (simp_all add: applyFilters_def filter_map comp_def)

lemma keeps_without_metadata: "mem_metadata r = None \<Longrightarrow> keeps x f r"
  by (simp add: keeps_def)

lemma keeps_importance_min:
  assumes "keeps x f r" "importance_min f = Some lo" "1 \<le> lo"
  shows "mem_metadata r = None
         \<or> (\<exists>md i. mem_metadata r = Some md \<and> importance md = Some i \<and> lo \<le> i)"
  using assms
  by (auto simp: keeps_def rejected_by_importance_min_def or_num_def
        split: option.splits if_splits)

text \<open>Runs on the simulated world.\<close>

lemma sim_embed:
  "MemoryService_textToEmbeddings (sim e b) t (sim_globals index)
     = (Inr [real (length t), 1], sim_globals index)"
  by (simp add: MemoryService_textToEmbeddings_def EmbeddingService_textToEmbeddings_def
        EmbeddingService_ensureInitialized_def sim_globals_def textToEmbeddings_try_def
        sim_extractor_def)

lemma sim_service_ready:
  "isInitialized (eizenService sim_service)" "vectorDb (eizenService sim_service) = Some sim_db"
  by (simp_all add: sim_service_def)

lemma sim_world_index: "sim_index (world (sim_globals index)) = index"
  by (simp add: sim_globals_def)

lemma sim_globals_insert:
  "(sim_globals index)\<lparr>world := (world (sim_globals index))\<lparr>sim_index := index'\<rparr>\<rparr>
     = sim_globals index'"
  by (simp add: sim_globals_def)

lemma sim_search_three:
  "searchVectors (sim e b) \<lparr>sv_query = q, sv_k = 5\<rparr> (eizenService sim_service)
     (sim_globals three_vectors)
   = (Inr [\<lparr>hit_id = 0, hit_distance = 0, hit_metadata = None\<rparr>,
           \<lparr>hit_id = 1, hit_distance = 1, hit_metadata = Some (with_importance 3)\<rparr>,
           \<lparr>hit_id = 2, hit_distance = 2, hit_metadata = Some (with_importance 7)\<rparr>],
      eizenService sim_service, sim_globals three_vectors)"
  by (simp add: searchVectors_ready [OF sim_service_ready] sim_world_index three_vectors_def)

lemma keeps_three:
  "keeps x (importance_at_least 5)
     (to_memory \<lparr>hit_id = 0, hit_distance = 0, hit_metadata = None\<rparr>)"
  "\<not> keeps x (importance_at_least 5)
     (to_memory \<lparr>hit_id = 1, hit_distance = 1, hit_metadata = Some (with_importance 3)\<rparr>)"
  "keeps x (importance_at_least 5)
     (to_memory \<lparr>hit_id = 2, hit_distance = 2, hit_metadata = Some (with_importance 7)\<rparr>)"
  by (simp_all add: keeps_def to_memory_def importance_at_least_def with_importance_def
        empty_metadata_def rejected_by_tags_def rejected_by_importance_min_def
        rejected_by_importance_max_def rejected_by_client_def rejected_by_date_def
        truthy_def or_num_def)

lemma sim_search_run:
  "searchMemories (sim e b)
     \<lparr>sm_query = ''dark mode'', sm_k = Some 5, sm_filters = Some (importance_at_least 5)\<rparr>
     sim_service (sim_globals three_vectors)
   = (Inr [to_memory \<lparr>hit_id = 0, hit_distance = 0, hit_metadata = None\<rparr>,
           to_memory \<lparr>hit_id = 2, hit_distance = 2, hit_metadata = Some (with_importance 7)\<rparr>],
      sim_service, sim_globals three_vectors)"
  by (simp add: searchMemories_def searchMemories_try_def sim_embed or_num_def sim_search_three
        applyFilters_def keeps_three)

subsection \<open>Filtering by minimum importance\<close>

text \<open>
  Claim C1, as the code has it. For a search with \<^verbatim>\<open>filters.importance_min = lo\<close> and
  \<open>lo \<ge> 1\<close>, every memory that \<^verbatim>\<open>searchMemories\<close> returns either has no metadata object at all
  or carries an importance of at least \<open>lo\<close>: a metadata object without \<^verbatim>\<open>importance\<close>
  counts as importance 0 and is rejected.
\<close>

theorem searchMemories_importance_min:
  assumes "searchMemories x d this g = (Inr memories, this', g')"
    and "sm_filters d = Some f" and "importance_min f = Some lo" and "1 \<le> lo"
    and "r \<in> set memories"
  shows "mem_metadata r = None
         \<or> (\<exists>md i. mem_metadata r = Some md \<and> importance md = Some i \<and> lo \<le> i)"
proof -
  from searchMemories_Inr [OF assms(1)] obtain hits where
    "memories = applyFilters x (map to_memory hits) (sm_filters d)" by blast
  with assms(2,5) have "keeps x f r" by (simp add: applyFilters_def)
  then show ?thesis using assms(3,4) by (rule keeps_importance_min)
qed

text \<open>
  On the index of three vectors, the search with \<open>importance_min = 5\<close> returns the vector of
  importance 7, and the theorem accounts for it.
\<close>

theorem searchMemories_importance_min_witness:
  "\<exists>md i. mem_metadata
             (to_memory \<lparr>hit_id = 2, hit_distance = 2, hit_metadata = Some (with_importance 7)\<rparr>)
           = Some md \<and> importance md = Some i \<and> 5 \<le> i"
proof -
  have "sm_filters \<lparr>sm_query = ''dark mode'', sm_k = Some 5,
                   sm_filters = Some (importance_at_least 5)\<rparr> = Some (importance_at_least 5)"
    and "importance_min (importance_at_least 5) = Some 5" and "(1::int) \<le> 5"
    and "to_memory \<lparr>hit_id = 2, hit_distance = 2, hit_metadata = Some (with_importance 7)\<rparr>
         \<in> set [to_memory \<lparr>hit_id = 0, hit_distance = 0, hit_metadata = None\<rparr>,
                 to_memory \<lparr>hit_id = 2, hit_distance = 2,
                            hit_metadata = Some (with_importance 7)\<rparr>]"
    by (simp_all add: importance_at_least_def)
  from searchMemories_importance_min [OF sim_search_run [of None "''1''"] this]
  show ?thesis by (simp add: to_memory_def)
qed

text \<open>
  The claim as stated fails: the same search also returns the vector that has no metadata
  object, hence no importance, although \<open>importance_min = 5\<close>.
\<close>

theorem searchMemories_keeps_hit_without_metadata:
  "fst (searchMemories (sim None ''1'')
          \<lparr>sm_query = ''dark mode'', sm_k = Some 5,
           sm_filters = Some (importance_at_least 5)\<rparr>
          sim_service (sim_globals three_vectors))
   = Inr [\<lparr>mem_id = 0, mem_content = None, mem_metadata = None, mem_distance = Some 0\<rparr>,
          \<lparr>mem_id = 2, mem_content = None, mem_metadata = Some (with_importance 7),
           mem_distance = Some 2\<rparr>]"
  by (simp add: sim_search_run to_memory_def content_of_def or_str_def truthy_def
        with_importance_def empty_metadata_def)

subsection \<open>Filtering never reorders\<close>

text \<open>
  Claim C7. Whenever the store's search answers with \<open>hits\<close>, \<^verbatim>\<open>searchMemories\<close> returns the
  reshaped image of a subsequence \<open>kept\<close> of \<open>hits\<close>: nothing is added, duplicated or moved,
  so hits in ascending distance stay in ascending distance. This holds for every query,
  \<open>k\<close> and filter.
\<close>

theorem searchMemories_preserves_store_order:
  assumes "MemoryService_textToEmbeddings x (sm_query d) g = (Inr q, g1)"
    and "searchVectors x \<lparr>sv_query = q, sv_k = or_num (sm_k d) 10\<rparr> (eizenService this) g1
           = (Inr hits, s', g2)"
  shows "\<exists>kept. searchMemories x d this g
                  = (Inr (map to_memory kept), this\<lparr>eizenService := s'\<rparr>, g2)
               \<and> subseq kept hits
               \<and> subseq (map to_memory kept) (map to_memory hits)
               \<and> (sorted (map hit_distance hits) \<longrightarrow> sorted (map hit_distance kept))"
proof -
  define kept where
    "kept = (case sm_filters d of
               None \<Rightarrow> hits
             | Some fl \<Rightarrow> filter (\<lambda>h. keeps x fl (to_memory h)) hits)"
  have run: "searchMemories x d this g
               = (Inr (map to_memory kept), this\<lparr>eizenService := s'\<rparr>, g2)"
    using assms by (simp add: searchMemories_def searchMemories_try_def applyFilters_map kept_def)
  have sub: "subseq kept hits"
    by (simp add: kept_def split: option.split)
  have sub': "subseq (map to_memory kept) (map to_memory hits)"
    using applyFilters_subseq [of x "map to_memory hits" "sm_filters d"]
    by (simp add: applyFilters_map kept_def)
  have ord: "sorted (map hit_distance hits) \<longrightarrow> sorted (map hit_distance kept)"
    by (simp add: kept_def sorted_filter split: option.split)
  from run sub sub' ord show ?thesis by blast
qed

text \<open>
  On the index of three vectors the store answers in ascending distance 0, 1, 2; the search
  keeps the first and the third, in that order.
\<close>

theorem searchMemories_preserves_store_order_witness:
  "\<exists>kept. searchMemories (sim None ''1'')
             \<lparr>sm_query = ''dark mode'', sm_k = Some 5,
              sm_filters = Some (importance_at_least 5)\<rparr>
             sim_service (sim_globals three_vectors)
           = (Inr (map to_memory kept), sim_service, sim_globals three_vectors)
         \<and> subseq kept
             [\<lparr>hit_id = 0, hit_distance = 0, hit_metadata = None\<rparr>,
              \<lparr>hit_id = 1, hit_distance = 1, hit_metadata = Some (with_importance 3)\<rparr>,
              \<lparr>hit_id = 2, hit_distance = 2, hit_metadata = Some (with_importance 7)\<rparr>]
         \<and> sorted (map hit_distance kept)"
proof -
  let ?d = "\<lparr>sm_query = ''dark mode'', sm_k = Some 5,
             sm_filters = Some (importance_at_least 5)\<rparr>"
  have emb: "MemoryService_textToEmbeddings (sim None ''1'') (sm_query ?d)
               (sim_globals three_vectors) = (Inr [9, 1], sim_globals three_vectors)"
    by (simp add: sim_embed)
  have store: "searchVectors (sim None ''1'') \<lparr>sv_query = [9, 1], sv_k = or_num (sm_k ?d) 10\<rparr>
                 (eizenService sim_service) (sim_globals three_vectors)
               = (Inr [\<lparr>hit_id = 0, hit_distance = 0, hit_metadata = None\<rparr>,
                       \<lparr>hit_id = 1, hit_distance = 1, hit_metadata = Some (with_importance 3)\<rparr>,
                       \<lparr>hit_id = 2, hit_distance = 2, hit_metadata = Some (with_importance 7)\<rparr>],
                  eizenService sim_service, sim_globals three_vectors)"
    by (simp add: or_num_def sim_search_three)
  from searchMemories_preserves_store_order [OF emb store]
  obtain kept where
    "searchMemories (sim None ''1'') ?d sim_service (sim_globals three_vectors)
       = (Inr (map to_memory kept), sim_service, sim_globals three_vectors)"
    "subseq kept
       [\<lparr>hit_id = 0, hit_distance = 0, hit_metadata = None\<rparr>,
        \<lparr>hit_id = 1, hit_distance = 1, hit_metadata = Some (with_importance 3)\<rparr>,
        \<lparr>hit_id = 2, hit_distance = 2, hit_metadata = Some (with_importance 7)\<rparr>]"
    "sorted (map hit_distance kept)"
    by auto
  then show ?thesis by blast
qed

subsection \<open>Batch embedding of one text into a rank-1 tensor\<close>

text \<open>
  With a rank-1 tensor the first axis is also the last, so \<^verbatim>\<open>batchDim\<close> is the embedding
  dimension, and the test \<^verbatim>\<open>batchDim !== texts.length\<close> rejects a single text unless that
  dimension is 1. The branch written for rank 1 is reached only then.
\<close>

lemma batch_rank1_mismatch:
  assumes "emb_isInitialized this" "extractor this = Some extract"
    and "extract [t] = Inr r" and "dims r = [n]" and "n \<noteq> 1" and "0 < n"
  shows "batchTextToEmbeddings x [t] this w =
           (Inl (Error (''Failed to generate batch embeddings: ''
                        @ ''Batch dimension mismatch: expected 1 but got '' @ show_int n)),
            this, w)"
  using assms
  by (simp add: batchTextToEmbeddings_def EmbeddingService_ensureInitialized_def
        batchTextToEmbeddings_try_def show_nat_digit)

lemma single_rank1_accepted:
  "EmbeddingService_textToEmbeddings x ''hello'' (ready_service rank1_extractor) w =
     (Inr \<lparr>embeddings = replicate 384 0, dimensions = 384, model = modelName\<rparr>,
      ready_service rank1_extractor, w)"
  by (simp add: EmbeddingService_textToEmbeddings_def EmbeddingService_ensureInitialized_def
        ready_service_def textToEmbeddings_try_def rank1_extractor_def)

text \<open>
  Claim C4, on the code: one text, and a backend that answers with a rank-1 tensor of 384
  components. The claim expects one result; \<^verbatim>\<open>batchTextToEmbeddings\<close> throws.
\<close>

theorem batch_rank1_single_text_rejected:
  "batchTextToEmbeddings x [''hello''] (ready_service rank1_extractor) w =
     (Inl (Error (''Failed to generate batch embeddings: ''
                  @ ''Batch dimension mismatch: expected 1 but got 384'')),
      ready_service rank1_extractor, w)"
  by (simp add: batchTextToEmbeddings_def EmbeddingService_ensureInitialized_def
        ready_service_def batchTextToEmbeddings_try_def rank1_extractor_def show_int_def
        show_nat.simps)

subsection \<open>A failed initialisation of the shared configuration\<close>

text \<open>
  A rejected promise stays in \<open>arweaveInitPromise\<close>: once a call has failed, every later call
  fails with the same error and leaves everything as it is.
\<close>

lemma failed_config_stays_failed:
  assumes "sharedArweaveConfig g = None" "getSharedArweaveConfig x g = (Inl e, g')"
  shows "getSharedArweaveConfig x g' = (Inl e, g')"
  using assms
  by (auto simp: getSharedArweaveConfig_def await_arweaveInitPromise_def
        split: option.splits sum.splits prod.splits)

text \<open>The embedding service, in contrast, forgets a failed attempt.\<close>

lemma failed_model_load_is_forgotten:
  assumes "initializationPromise s = None"
    and "EmbeddingService_ensureInitialized x s w = (Inl e, s', w')"
  shows "initializationPromise s' = None"
  using assms
  by (auto simp: EmbeddingService_ensureInitialized_def EmbeddingService_initialize_def Let_def
        split: option.splits sum.splits prod.splits if_splits)

text \<open>
  Claim C2, on the code: in a fresh process the first call of \<^verbatim>\<open>getSharedArweaveConfig\<close>
  fails; a second attempt of \<^verbatim>\<open>getArweaveConfig\<close> would succeed, but the second call
  makes none (the count of attempts stays 1) and fails with the first error.
\<close>

theorem failed_config_initialisation_is_cached:
  "fst (getSharedArweaveConfig (sim None ''1'') fresh_globals)
     = Inl (Error ''wallet unavailable'')
   \<and> fst (getArweaveConfig (sim None ''1'')
           (world (snd (getSharedArweaveConfig (sim None ''1'') fresh_globals))))
     = Inr ''config''
   \<and> fst (getSharedArweaveConfig (sim None ''1'')
           (snd (getSharedArweaveConfig (sim None ''1'') fresh_globals)))
     = Inl (Error ''wallet unavailable'')
   \<and> sim_attempts (world (snd (getSharedArweaveConfig (sim None ''1'')
                      (snd (getSharedArweaveConfig (sim None ''1'') fresh_globals)))))
     = 1"
  by (simp add: getSharedArweaveConfig_def await_arweaveInitPromise_def fresh_globals_def)

subsection \<open>Sequential ids\<close>

text \<open>
  Claim C5. A successful \<^verbatim>\<open>insertVector\<close> returns as id the element count \<open>n\<close> that the
  index reported in the world in which the insert is then made (the count is read first,
  the vector written second). Hence \<^verbatim>\<open>createMemory\<close> on a ready store whose index
  reports \<open>n\<close> elements returns \<^verbatim>\<open>success = true\<close> and \<^verbatim>\<open>memoryId = n\<close> when the
  embedding and the insert succeed; on an empty store \<open>n = 0\<close>.
\<close>

theorem insert_id_is_prior_count:
  "(insertVector x v s g = (Inr result, s', g') \<longrightarrow>
      (\<exists>g1 db n w'.
          EizenService_ensureInitialized x s g = (Inr (), s', g1)
        \<and> vectorDb s' = Some db
        \<and> get_datasize x db (world g1) = Inr n
        \<and> insert' x db (iv_vector v) (iv_metadata v) (world g1) = (Inr (), w')
        \<and> world g' = w'
        \<and> ir_success result \<and> vectorId result = int n))
   \<and> (MemoryService_textToEmbeddings x (cm_content d) g = (Inr emb, g1)
        \<and> isInitialized (eizenService this) \<and> vectorDb (eizenService this) = Some db
        \<and> get_datasize x db (world g1) = Inr n
        \<and> insert' x db emb (Some (enhancedMetadata d)) (world g1) = (Inr (), w')
      \<longrightarrow> createMemory x d this g =
            (Inr \<lparr>success = True, memoryId = int n,
                  message = ''Memory created from '' @ show_nat (length (cm_content d))
                            @ '' characters of content''\<rparr>,
             this, g1\<lparr>world := w'\<rparr>))"
proof (intro conjI impI)
  assume "insertVector x v s g = (Inr result, s', g')"
  from insertVector_Inr [OF this]
  show "\<exists>g1 db n w'.
          EizenService_ensureInitialized x s g = (Inr (), s', g1)
        \<and> vectorDb s' = Some db
        \<and> get_datasize x db (world g1) = Inr n
        \<and> insert' x db (iv_vector v) (iv_metadata v) (world g1) = (Inr (), w')
        \<and> world g' = w'
        \<and> ir_success result \<and> vectorId result = int n"
    by fastforce
next
  assume a: "MemoryService_textToEmbeddings x (cm_content d) g = (Inr emb, g1)
        \<and> isInitialized (eizenService this) \<and> vectorDb (eizenService this) = Some db
        \<and> get_datasize x db (world g1) = Inr n
        \<and> insert' x db emb (Some (enhancedMetadata d)) (world g1) = (Inr (), w')"
  then have "EizenService_ensureInitialized x (eizenService this) g1
               = (Inr (), eizenService this, g1)"
    by (simp add: ensureInitialized_ready)
  with a show "createMemory x d this g =
            (Inr \<lparr>success = True, memoryId = int n,
                  message = ''Memory created from '' @ show_nat (length (cm_content d))
                            @ '' characters of content''\<rparr>,
             this, g1\<lparr>world := w'\<rparr>)"
    by (simp add: createMemory_def createMemory_try_def insertVector_def insertVector_try_def)
qed

text \<open>
  The scenario of the specification: \<open>dark_mode\<close> is created on an empty store. The caller's
  metadata carries a \<^verbatim>\<open>content\<close> key of its own.
\<close>

lemma dark_mode_content: "cm_content dark_mode = ''User prefers dark mode''"
  by (simp add: dark_mode_def)

lemma dark_mode_length: "length (cm_content dark_mode) = 22"
  by (simp add: dark_mode_def)

lemma show_nat_22: "show_nat 22 = ''22''"
  by (simp add: show_nat.simps)

lemma sim_create_run:
  "createMemory (sim e b) dark_mode sim_service (sim_globals []) =
     (Inr \<lparr>success = True, memoryId = 0,
           message = ''Memory created from 22 characters of content''\<rparr>,
      sim_service, sim_globals [([22, 1], Some (enhancedMetadata dark_mode))])"
proof -
  have "createMemory (sim e b) dark_mode sim_service (sim_globals []) =
     (Inr \<lparr>success = True, memoryId = int 0,
           message = ''Memory created from '' @ show_nat (length (cm_content dark_mode))
                     @ '' characters of content''\<rparr>,
      sim_service,
      (sim_globals [])\<lparr>world := (world (sim_globals []))
         \<lparr>sim_index := sim_index (world (sim_globals []))
                        @ [([22, 1], Some (enhancedMetadata dark_mode))]\<rparr>\<rparr>)"
    by (simp add: createMemory_def createMemory_try_def insertVector_def insertVector_try_def
          sim_embed ensureInitialized_ready [OF sim_service_ready] sim_service_ready
          dark_mode_length sim_world_index)
  then show ?thesis
    by (simp add: sim_globals_insert sim_world_index dark_mode_length show_nat_22)
qed

theorem insert_id_is_prior_count_witness:
  "(\<exists>g1 db n w'.
       EizenService_ensureInitialized (sim None ''1'') (eizenService sim_service)
         (sim_globals []) = (Inr (), eizenService sim_service, g1)
     \<and> vectorDb (eizenService sim_service) = Some db
     \<and> get_datasize (sim None ''1'') db (world g1) = Inr n
     \<and> vectorId \<lparr>ir_success = True, vectorId = 0,
                   ir_message = ''Vector inserted successfully with ID: 0''\<rparr> = int n)
   \<and> createMemory (sim None ''1'') dark_mode sim_service (sim_globals []) =
       (Inr \<lparr>success = True, memoryId = 0,
             message = ''Memory created from 22 characters of content''\<rparr>,
        sim_service, sim_globals [([22, 1], Some (enhancedMetadata dark_mode))])"
proof -
  let ?x = "sim None ''1'' :: (sim_world, string) ext"
  let ?v = "\<lparr>iv_vector = [22, 1], iv_metadata = Some (enhancedMetadata dark_mode)\<rparr>"
  let ?res = "\<lparr>ir_success = True, vectorId = 0,
                ir_message = ''Vector inserted successfully with ID: 0''\<rparr>"
  let ?w' = "(world (sim_globals []))
               \<lparr>sim_index := [([22, 1], Some (enhancedMetadata dark_mode))]\<rparr>"
  have ins: "insertVector ?x ?v (eizenService sim_service) (sim_globals [])
               = (Inr ?res, eizenService sim_service,
                  sim_globals [([22, 1], Some (enhancedMetadata dark_mode))])"
    by (simp add: insertVector_def insertVector_try_def
          ensureInitialized_ready [OF sim_service_ready] sim_service_ready sim_world_index
          sim_globals_insert show_nat_digit)
  have pre: "MemoryService_textToEmbeddings ?x (cm_content dark_mode) (sim_globals [])
               = (Inr [22, 1], sim_globals [])
             \<and> isInitialized (eizenService sim_service)
             \<and> vectorDb (eizenService sim_service) = Some sim_db
             \<and> get_datasize ?x sim_db (world (sim_globals [])) = Inr 0
             \<and> insert' ?x sim_db [22, 1] (Some (enhancedMetadata dark_mode))
                 (world (sim_globals [])) = (Inr (), ?w')"
    by (simp add: sim_embed sim_service_ready sim_world_index dark_mode_length)
  note inst = insert_id_is_prior_count [where x = ?x and v = ?v
      and s = "eizenService sim_service" and g = "sim_globals []" and result = ?res
      and s' = "eizenService sim_service"
      and g' = "sim_globals [([22, 1], Some (enhancedMetadata dark_mode))]"
      and d = dark_mode and emb = "[22, 1]" and ?g1.0 = "sim_globals []"
      and this = sim_service and db = sim_db and n = 0 and w' = ?w']
  from inst ins have first: "\<exists>g1 db n w'.
       EizenService_ensureInitialized ?x (eizenService sim_service)
         (sim_globals []) = (Inr (), eizenService sim_service, g1)
     \<and> vectorDb (eizenService sim_service) = Some db
     \<and> get_datasize ?x db (world g1) = Inr n
     \<and> vectorId ?res = int n"
    by blast
  from inst pre have "createMemory ?x dark_mode sim_service (sim_globals []) =
            (Inr \<lparr>success = True, memoryId = int 0,
                  message = ''Memory created from '' @ show_nat (length (cm_content dark_mode))
                            @ '' characters of content''\<rparr>,
             sim_service, (sim_globals [])\<lparr>world := ?w'\<rparr>)"
    by blast
  then have second: "createMemory ?x dark_mode sim_service (sim_globals []) =
       (Inr \<lparr>success = True, memoryId = 0,
             message = ''Memory created from 22 characters of content''\<rparr>,
        sim_service, sim_globals [([22, 1], Some (enhancedMetadata dark_mode))])"
    by (simp add: sim_globals_insert dark_mode_length show_nat_22)
  from first second show ?thesis by blast
qed

subsection \<open>Round trip of the content\<close>

lemma content_enhancedMetadata: "content (enhancedMetadata d) = Some (cm_content d)"
  by (simp add: enhancedMetadata_def)

text \<open>
  Claim C3. The index is a parameter; what the round trip needs from it is that a vector
  inserted when the count was \<open>n\<close> is the one read back under the id \<open>n\<close>. Then, for
  content that the request schema accepts (non-empty, at most 10000 characters) and any
  caller metadata, a successful \<^verbatim>\<open>createMemory\<close> followed by \<^verbatim>\<open>getMemory\<close> of the returned id
  yields the original content, and the metadata read back is the caller's with its
  \<^verbatim>\<open>content\<close> key set to the original text, whatever that key held before.
\<close>

theorem createMemory_getMemory_roundtrip:
  assumes law: "\<forall>db v md w w' n.
                  get_datasize x db w = Inr n \<and> insert' x db v md w = (Inr (), w')
                  \<longrightarrow> get_vector x db (int n) w' = Inr (Some (v, md))"
    and valid: "content_issues (cm_content d) = []"
    and created: "createMemory x d this g = (Inr r, this', g')"
  shows "getMemory x (memoryId r) this' g'
           = (Inr (Some \<lparr>mem_id = memoryId r, mem_content = Some (cm_content d),
                         mem_metadata = Some (enhancedMetadata d), mem_distance = None\<rparr>),
              this', g')
         \<and> content (enhancedMetadata d) = Some (cm_content d)
         \<and> enhancedMetadata d
             = (case cm_metadata d of None \<Rightarrow> empty_metadata | Some md \<Rightarrow> md)
                 \<lparr>content := Some (cm_content d)\<rparr>"
proof -
  from createMemory_Inr [OF created] obtain emb g1 result s' where
    ins: "insertVector x \<lparr>iv_vector = emb, iv_metadata = Some (enhancedMetadata d)\<rparr>
            (eizenService this) g1 = (Inr result, s', g')" and
    this': "this' = this\<lparr>eizenService := s'\<rparr>" and
    r: "memoryId r = vectorId result"
    by auto
  from insertVector_Inr [OF ins] obtain g2 db n w' where
    db: "vectorDb s' = Some db" "isInitialized s'" and
    n: "get_datasize x db (world g2) = Inr n" and
    i: "insert' x db emb (Some (enhancedMetadata d)) (world g2) = (Inr (), w')" and
    g': "g' = g2\<lparr>world := w'\<rparr>" and
    res: "vectorId result = int n"
    by auto
  from law n i
  have gv: "get_vector x db (int n) (world g') = Inr (Some (emb, Some (enhancedMetadata d)))"
    by (simp add: g')
  from valid have ne: "cm_content d \<noteq> []"
    by (auto simp: content_issues_def split: if_splits)
  have c: "content_of (Some (enhancedMetadata d)) = Some (cm_content d)"
    using ne by (simp add: content_of_def content_enhancedMetadata or_str_def truthy_def)
  have h: "getMemory x (int n) this' g'
             = (Inr (Some \<lparr>mem_id = int n, mem_content = content_of (Some (enhancedMetadata d)),
                           mem_metadata = Some (enhancedMetadata d), mem_distance = None\<rparr>),
                this', g')"
    by (rule getMemory_ready [where db = db]) (simp_all add: this' db gv)
  have e: "enhancedMetadata d
             = (case cm_metadata d of None \<Rightarrow> empty_metadata | Some md \<Rightarrow> md)
                 \<lparr>content := Some (cm_content d)\<rparr>"
    by (simp add: enhancedMetadata_def)
  from h c have gm: "getMemory x (memoryId r) this' g'
           = (Inr (Some \<lparr>mem_id = memoryId r, mem_content = Some (cm_content d),
                         mem_metadata = Some (enhancedMetadata d), mem_distance = None\<rparr>),
              this', g')"
    by (simp add: r res)
  show ?thesis
    by (intro conjI) (rule gm, rule content_enhancedMetadata, rule e)
qed

text \<open>
  The simulated index obeys the law, and the scenario runs through it: the caller's
  \<^verbatim>\<open>content\<close> key (\<open>''something else''\<close>) is replaced by the text of the memory.
\<close>

lemma sim_index_law:
  "\<forall>db v md w w' n.
     get_datasize (sim e b) db w = Inr n \<and> insert' (sim e b) db v md w = (Inr (), w')
     \<longrightarrow> get_vector (sim e b) db (int n) w' = Inr (Some (v, md))"
  by auto

theorem createMemory_getMemory_roundtrip_witness:
  "getMemory (sim None ''1'') 0 sim_service
     (sim_globals [([22, 1], Some (enhancedMetadata dark_mode))])
   = (Inr (Some \<lparr>mem_id = 0, mem_content = Some ''User prefers dark mode'',
                 mem_metadata = Some (enhancedMetadata dark_mode), mem_distance = None\<rparr>),
      sim_service, sim_globals [([22, 1], Some (enhancedMetadata dark_mode))])
   \<and> content (enhancedMetadata dark_mode) = Some ''User prefers dark mode''
   \<and> cm_metadata dark_mode
       = Some (empty_metadata\<lparr>content := Some ''something else'', importance := Some 7,
                              tags := Some [''preference'']\<rparr>)"
proof -
  have valid: "content_issues (cm_content dark_mode) = []"
    by (simp add: content_issues_def dark_mode_content)
  note rt = createMemory_getMemory_roundtrip
         [OF sim_index_law [of None "''1''"] valid sim_create_run [of None "''1''"]]
  from rt [THEN conjunct1]
  have a: "getMemory (sim None ''1'') 0 sim_service
             (sim_globals [([22, 1], Some (enhancedMetadata dark_mode))])
           = (Inr (Some \<lparr>mem_id = 0, mem_content = Some (cm_content dark_mode),
                         mem_metadata = Some (enhancedMetadata dark_mode),
                         mem_distance = None\<rparr>),
              sim_service, sim_globals [([22, 1], Some (enhancedMetadata dark_mode))])"
    by simp
  from rt [THEN conjunct2, THEN conjunct1]
  have b: "content (enhancedMetadata dark_mode) = Some (cm_content dark_mode)" .
  have c: "cm_metadata dark_mode
             = Some (empty_metadata\<lparr>content := Some ''something else'', importance := Some 7,
                                    tags := Some [''preference'']\<rparr>)"
    by (simp add: dark_mode_def)
  from a b c show ?thesis
    by (simp add: dark_mode_content)
qed

subsection \<open>Deployment with an empty wallet\<close>

text \<open>
  Claim C6, as the code has it. When the shared configuration is available and the wallet's
  balance reads as zero (or less), \<^verbatim>\<open>deployNewContract\<close> fails before any deployment call
  (the world is the one in which the balance was read) with a plain \<^verbatim>\<open>Error\<close>, the only
  error class this service throws. Its message is the wrapped balance message, and the
  message of production differs from the one of any other environment.
\<close>

theorem deploy_zero_balance_fails_fast:
  assumes "getSharedArweaveConfig x g = (Inr c, g1)"
    and "getAddress x c (world g1) = Inr a"
    and "getBalance x c a (world g1) = Inr b"
    and "parseFloat x (winstonToAr x c b) = Some v" and "v \<le> 0"
  shows "deployNewContract x g =
           (Inl (Error (''Failed to deploy contract: '' @
              (if isProduction x
               then ''Insufficient wallet balance for deployment. Current: ''
                    @ winstonToAr x c b @ '' AR.''
               else ''Insufficient wallet balance. Current: '' @ winstonToAr x c b
                    @ '' AR. '' @ bulb
                    @ '' Dev tip: ArLocal should auto-mint tokens. Check ArLocal is running.''))),
            g1)
         \<and> ''Failed to deploy contract: ''
             @ ''Insufficient wallet balance for deployment. Current: ''
             @ winstonToAr x c b @ '' AR.''
           \<noteq> ''Failed to deploy contract: ''
             @ ''Insufficient wallet balance. Current: '' @ winstonToAr x c b
             @ '' AR. '' @ bulb
             @ '' Dev tip: ArLocal should auto-mint tokens. Check ArLocal is running.''"
  using assms
  by (simp add: deployNewContract_def deployNewContract_try_def Let_def)

text \<open>Runs with a balance of \<open>''0''\<close>, in production and in development.\<close>

lemma sim_config_ready:
  "getSharedArweaveConfig (sim e b) (sim_globals index) = (Inr ''config'', sim_globals index)"
  by (simp add: getSharedArweaveConfig_def sim_globals_def)

lemma sim_production:
  "isProduction (sim (Some ''production'') b)" "\<not> isProduction (sim (Some ''development'') b)"
  by (simp_all add: isProduction_def)

theorem deploy_zero_balance_fails_fast_witness:
  "deployNewContract (sim (Some ''production'') ''0'') (sim_globals []) =
     (Inl (Error (''Failed to deploy contract: ''
                  @ ''Insufficient wallet balance for deployment. Current: 0 AR.'')),
      sim_globals [])
   \<and> deployNewContract (sim (Some ''development'') ''0'') (sim_globals []) =
     (Inl (Error (''Failed to deploy contract: ''
                  @ ''Insufficient wallet balance. Current: 0 AR. '' @ bulb
                  @ '' Dev tip: ArLocal should auto-mint tokens. Check ArLocal is running.'')),
      sim_globals [])"
proof -
  have pre: "getAddress (sim e ''0'') ''config'' (world (sim_globals [])) = Inr ''address''"
    "getBalance (sim e ''0'') ''config'' ''address'' (world (sim_globals [])) = Inr ''0''"
    "parseFloat (sim e ''0'') (winstonToAr (sim e ''0'') ''config'' ''0'') = Some 0"
    "(0::real) \<le> 0" for e
    by simp_all
  from deploy_zero_balance_fails_fast [OF sim_config_ready pre, of "Some ''production''"]
  have p: "deployNewContract (sim (Some ''production'') ''0'') (sim_globals []) =
     (Inl (Error (''Failed to deploy contract: ''
                  @ ''Insufficient wallet balance for deployment. Current: 0 AR.'')),
      sim_globals [])"
    by (simp add: sim_production)
  from deploy_zero_balance_fails_fast [OF sim_config_ready pre, of "Some ''development''"]
  have d: "deployNewContract (sim (Some ''development'') ''0'') (sim_globals []) =
     (Inl (Error (''Failed to deploy contract: ''
                  @ ''Insufficient wallet balance. Current: 0 AR. '' @ bulb
                  @ '' Dev tip: ArLocal should auto-mint tokens. Check ArLocal is running.'')),
      sim_globals [])"
    by (simp add: sim_production)
  from p d show ?thesis by (rule conjI)
qed

text \<open>
  The claim as stated fails: in production, with a balance of zero, what is thrown is
  \<^verbatim>\<open>new Error(...)\<close>, the generic error, not an error of a type of its own.
\<close>

theorem deploy_zero_balance_raises_generic_error:
  "fst (deployNewContract (sim (Some ''production'') ''0'') (sim_globals []))
   = Inl (Error ''Failed to deploy contract: Insufficient wallet balance for deployment. Current: 0 AR.'')"
  by (simp add: deployNewContract_def deployNewContract_try_def sim_config_ready
        isProduction_def)

subsection \<open>The quota gate\<close>

text \<open>
  Claim C8. For an authenticated user whose subscription lookup answers with \<open>sub\<close>: a missing
  subscription is refused with 403, an inactive one with 403 and another message, an active
  one that has used its quota with 429; otherwise the rest of the request runs on that
  subscription and its outcome is the gate's (an exception that is not an
  \<^verbatim>\<open>HTTPException\<close> becomes a 500). The three refusals are pairwise different.
\<close>

theorem quota_gate:
  assumes "uid \<noteq> []" and "getUserSubscription listDocuments uid = Inr sub"
  shows "(sub = None \<longrightarrow>
            quotaMiddleware listDocuments (Some uid) next'
              = Inl (HTTPException 403 ''No active subscription found''))
       \<and> (\<forall>s. sub = Some s \<and> \<not> isActive s \<longrightarrow>
            quotaMiddleware listDocuments (Some uid) next'
              = Inl (HTTPException 403 ''Subscription is inactive''))
       \<and> (\<forall>s. sub = Some s \<and> isActive s \<and> quotaUsed s \<ge> quotaLimit s \<longrightarrow>
            quotaMiddleware listDocuments (Some uid) next'
              = Inl (HTTPException 429
                      (''Quota exceeded. Used '' @ show_int (quotaUsed s) @ ''/''
                       @ show_int (quotaLimit s))))
       \<and> (\<forall>s. sub = Some s \<and> isActive s \<and> quotaUsed s < quotaLimit s \<longrightarrow>
            quotaMiddleware listDocuments (Some uid) next'
              = (case next' s of
                   Inr v \<Rightarrow> Inr v
                 | Inl (HTTPException status msg) \<Rightarrow> Inl (HTTPException status msg)
                 | Inl other \<Rightarrow> Inl (HTTPException 500 ''Failed to check quota'')))
       \<and> HTTPException 403 ''No active subscription found''
           \<noteq> HTTPException 403 ''Subscription is inactive''
       \<and> (\<forall>m. HTTPException 429 m \<noteq> HTTPException 403 ''No active subscription found''
              \<and> HTTPException 429 m \<noteq> HTTPException 403 ''Subscription is inactive'')"
  using assms
  by (auto simp: quotaMiddleware_def quotaMiddleware_try_def split: sum.splits exn.splits)

text \<open>The four cases, for the user \<open>''u1''\<close> and a plan of 100 requests.\<close>

lemma show_int_100: "show_int 100 = ''100''"
  by (simp add: show_int_def show_nat.simps)

theorem quota_gate_witness:
  "quotaMiddleware (\<lambda>u. Inr []) (Some ''u1'') (\<lambda>s. Inr (quotaUsed s))
     = Inl (HTTPException 403 ''No active subscription found'')
   \<and> quotaMiddleware (\<lambda>u. Inr [subscription_of False 3]) (Some ''u1'') (\<lambda>s. Inr (quotaUsed s))
     = Inl (HTTPException 403 ''Subscription is inactive'')
   \<and> quotaMiddleware (\<lambda>u. Inr [subscription_of True 100]) (Some ''u1'') (\<lambda>s. Inr (quotaUsed s))
     = Inl (HTTPException 429 ''Quota exceeded. Used 100/100'')
   \<and> quotaMiddleware (\<lambda>u. Inr [subscription_of True 3]) (Some ''u1'') (\<lambda>s. Inr (quotaUsed s))
     = Inr 3"
proof -
  have u: "''u1'' \<noteq> []" by simp
  have l: "getUserSubscription (\<lambda>u. Inr docs) ''u1''
             = Inr (case docs of [] \<Rightarrow> None | d # ds \<Rightarrow> Some d)" for docs
    by (simp add: getUserSubscription_def)
  from quota_gate [OF u l, of "[]" "\<lambda>s. Inr (quotaUsed s)"]
  have a: "quotaMiddleware (\<lambda>u. Inr []) (Some ''u1'') (\<lambda>s. Inr (quotaUsed s))
             = Inl (HTTPException 403 ''No active subscription found'')"
    by simp
  from quota_gate [OF u l, of "[subscription_of False 3]" "\<lambda>s. Inr (quotaUsed s)"]
  have b: "quotaMiddleware (\<lambda>u. Inr [subscription_of False 3]) (Some ''u1'')
             (\<lambda>s. Inr (quotaUsed s)) = Inl (HTTPException 403 ''Subscription is inactive'')"
    by (simp add: subscription_of_def)
  from quota_gate [OF u l, of "[subscription_of True 100]" "\<lambda>s. Inr (quotaUsed s)"]
  have c: "quotaMiddleware (\<lambda>u. Inr [subscription_of True 100]) (Some ''u1'')
             (\<lambda>s. Inr (quotaUsed s)) = Inl (HTTPException 429 ''Quota exceeded. Used 100/100'')"
    by (simp add: subscription_of_def show_int_100)
  from quota_gate [OF u l, of "[subscription_of True 3]" "\<lambda>s. Inr (quotaUsed s)"]
  have d: "quotaMiddleware (\<lambda>u. Inr [subscription_of True 3]) (Some ''u1'')
             (\<lambda>s. Inr (quotaUsed s)) = Inr 3"
    by (simp add: subscription_of_def)
  from a b c d show ?thesis by blast
qed

subsection \<open>Statistics never throw\<close>








subsection \<open>The default of \<open>k\<close>\<close>

text \<open>
  Claim C10. When the request carries no \<open>k\<close>, \<^verbatim>\<open>searchMemories\<close> on a ready store calls the
  index's k-nearest search with \<open>k = 10\<close>, and that call decides its outcome. The request
  schema fills an absent \<open>k\<close> with 10, accepts an explicit \<open>k\<close> only within 1..100 and
  leaves it as it is, and rejects every other \<open>k\<close>.
\<close>

theorem search_k_default:
  "(sm_k d = None \<and> isInitialized (eizenService this)
      \<and> vectorDb (eizenService this) = Some db
      \<and> MemoryService_textToEmbeddings x (sm_query d) g = (Inr q, g1)
    \<longrightarrow> searchMemories x d this g =
          (case knn_search x db q 10 (world g1) of
             Inl error \<Rightarrow>
               (Inl (Error (''Failed to search memories: Failed to search vectors: ''
                            @ error_message error)), this, g1)
           | Inr results \<Rightarrow>
               (Inr (applyFilters x (map to_memory results) (sm_filters d)), this, g1)))
   \<and> (sm_k d = None \<and> searchMemorySchema datetime d = Inr out \<longrightarrow> sm_k out = Some 10)
   \<and> (sm_k d = Some n \<and> searchMemorySchema datetime d = Inr out
        \<longrightarrow> 1 \<le> n \<and> n \<le> 100 \<and> sm_k out = Some n)
   \<and> (sm_k d = Some n \<and> (n < 1 \<or> 100 < n)
        \<longrightarrow> (\<exists>issues. searchMemorySchema datetime d = Inl issues))"
proof (intro conjI impI)
  assume a: "sm_k d = None \<and> isInitialized (eizenService this)
      \<and> vectorDb (eizenService this) = Some db
      \<and> MemoryService_textToEmbeddings x (sm_query d) g = (Inr q, g1)"
  then have sv: "searchVectors x \<lparr>sv_query = q, sv_k = 10\<rparr> (eizenService this) g1 =
      (case knn_search x db q 10 (world g1) of
         Inl error \<Rightarrow>
           (Inl (Error (''Failed to search vectors: '' @ error_message error)),
            eizenService this, g1)
       | Inr results \<Rightarrow> (Inr results, eizenService this, g1))"
    by (simp add: searchVectors_ready)
  show "searchMemories x d this g =
          (case knn_search x db q 10 (world g1) of
             Inl error \<Rightarrow>
               (Inl (Error (''Failed to search memories: Failed to search vectors: ''
                            @ error_message error)), this, g1)
           | Inr results \<Rightarrow>
               (Inr (applyFilters x (map to_memory results) (sm_filters d)), this, g1))"
    using a
    by (simp add: searchMemories_def searchMemories_try_def or_num_def sv split: sum.splits)
next
  assume "sm_k d = None \<and> searchMemorySchema datetime d = Inr out"
  then show "sm_k out = Some 10"
    by (auto simp: searchMemorySchema_def k_output_def Let_def split: if_splits)
next
  assume "sm_k d = Some n \<and> searchMemorySchema datetime d = Inr out"
  then show "1 \<le> n" "n \<le> 100" "sm_k out = Some n"
    by (auto simp: searchMemorySchema_def k_output_def k_issues_def Let_def split: if_splits)
next
  assume "sm_k d = Some n \<and> (n < 1 \<or> 100 < n)"
  then show "\<exists>issues. searchMemorySchema datetime d = Inl issues"
    by (auto simp: searchMemorySchema_def k_issues_def Let_def)
qed

text \<open>
  On an index of twelve vectors a search without \<open>k\<close> returns ten memories; the schema turns
  an absent \<open>k\<close> into 10, keeps 50 and refuses 0 and 101.
\<close>

lemma length_sim_hits: "length (sim_hits i xs) = length xs"
  by (induction i xs rule: sim_hits.induct) simp_all

theorem search_k_default_witness:
  "(\<exists>memories.
      searchMemories (sim None ''1'') (search_request None) sim_service
        (sim_globals (replicate 12 ([0, 1], None)))
      = (Inr memories, sim_service, sim_globals (replicate 12 ([0, 1], None)))
      \<and> length memories = 10)
   \<and> (\<exists>out. searchMemorySchema (\<lambda>s. True) (search_request None) = Inr out
            \<and> sm_k out = Some 10)
   \<and> (\<exists>out. searchMemorySchema (\<lambda>s. True) (search_request (Some 50)) = Inr out
            \<and> sm_k out = Some 50)
   \<and> (\<exists>issues. searchMemorySchema (\<lambda>s. True) (search_request (Some 0)) = Inl issues)
   \<and> (\<exists>issues. searchMemorySchema (\<lambda>s. True) (search_request (Some 101)) = Inl issues)"
proof -
  let ?x = "sim None ''1'' :: (sim_world, string) ext"
  let ?g = "sim_globals (replicate 12 ([0, 1], None))"
  have pre: "sm_k (search_request None) = None \<and> isInitialized (eizenService sim_service)
      \<and> vectorDb (eizenService sim_service) = Some sim_db
      \<and> MemoryService_textToEmbeddings ?x (sm_query (search_request None)) ?g
          = (Inr [9, 1], ?g)"
    by (simp add: search_request_def sim_service_ready sim_embed)
  from search_k_default [where d = "search_request None" and this = sim_service
      and db = sim_db and x = ?x and g = ?g and q = "[9, 1]" and ?g1.0 = ?g] pre
  have "searchMemories ?x (search_request None) sim_service ?g =
          (case knn_search ?x sim_db [9, 1] 10 (world ?g) of
             Inl error \<Rightarrow>
               (Inl (Error (''Failed to search memories: Failed to search vectors: ''
                            @ error_message error)), sim_service, ?g)
           | Inr results \<Rightarrow>
               (Inr (applyFilters ?x (map to_memory results)
                       (sm_filters (search_request None))), sim_service, ?g))"
    by blast
  then have a: "\<exists>memories.
      searchMemories ?x (search_request None) sim_service ?g = (Inr memories, sim_service, ?g)
      \<and> length memories = 10"
    by (simp add: sim_world_index applyFilters_def search_request_def length_sim_hits)
  have s1: "searchMemorySchema (\<lambda>s. True) (search_request None)
              = Inr \<lparr>sm_query = ''dark mode'', sm_k = Some 10, sm_filters = None\<rparr>"
    by (simp add: searchMemorySchema_def search_request_def query_issues_def k_issues_def
          k_output_def)
  from search_k_default [where d = "search_request None" and datetime = "\<lambda>s. True"
      and out = "\<lparr>sm_query = ''dark mode'', sm_k = Some 10, sm_filters = None\<rparr>"] s1
  have b: "\<exists>out. searchMemorySchema (\<lambda>s. True) (search_request None) = Inr out
                \<and> sm_k out = Some 10"
    by (simp add: search_request_def)
  have s2: "searchMemorySchema (\<lambda>s. True) (search_request (Some 50))
              = Inr \<lparr>sm_query = ''dark mode'', sm_k = Some 50, sm_filters = None\<rparr>"
    by (simp add: searchMemorySchema_def search_request_def query_issues_def k_issues_def
          k_output_def)
  from search_k_default [where d = "search_request (Some 50)" and datetime = "\<lambda>s. True"
      and n = 50
      and out = "\<lparr>sm_query = ''dark mode'', sm_k = Some 50, sm_filters = None\<rparr>"] s2
  have c: "\<exists>out. searchMemorySchema (\<lambda>s. True) (search_request (Some 50)) = Inr out
                \<and> sm_k out = Some 50"
    by (simp add: search_request_def)
  from search_k_default [where d = "search_request (Some 0)" and datetime = "\<lambda>s. True"
      and n = 0]
  have d: "\<exists>issues. searchMemorySchema (\<lambda>s. True) (search_request (Some 0)) = Inl issues"
    by (simp add: search_request_def)
  from search_k_default [where d = "search_request (Some 101)" and datetime = "\<lambda>s. True"
      and n = 101]
  have e: "\<exists>issues. searchMemorySchema (\<lambda>s. True) (search_request (Some 101)) = Inl issues"
    by (simp add: search_request_def)
  from a b c d e show ?thesis by blast
qed

end
